theory Spec2Isabelle
  imports Complex_Main "HOL-Library.Multiset"
begin

section \<open>Data model\<close>

text \<open>
  The two edge functions \<^verbatim>\<open>health-coach-assistant/index.ts\<close> and
  \<^verbatim>\<open>excursion-creator-assistant/index.ts\<close> are the same text except in three places:
  the \<^verbatim>\<open>assistant_type\<close> literal written into the conversation row, the construction of
  \<^verbatim>\<open>messageContent\<close> (the excursion endpoint only), and the name of the environment
  variable holding the assistant id together with its error text. The embedding is one
  handler taking the endpoint as a parameter; the three places are the functions
  \<open>build_message_content\<close>, \<open>assistant_id_env\<close> and \<open>assistant_id_missing\<close>.
\<close>

datatype assistant_type = health_coach | excursion_creator

datatype role = user | assistant

text \<open>
  A value thrown inside the \<^verbatim>\<open>try\<close> block: either an \<^verbatim>\<open>Error\<close> instance with its
  message, or any other value (for which the \<^verbatim>\<open>catch\<close> block reports a fixed text).
\<close>

datatype thrown = JsError string | NonError

text \<open>
  The outcome of one \<^verbatim>\<open>fetch\<close> against the remote assistant service, as the handler
  observes it: the promise rejects (or decoding the body throws), the response is not
  \<^verbatim>\<open>ok\<close>, or the response is \<^verbatim>\<open>ok\<close> and carries the decoded payload.
\<close>

datatype 'a fetch_result = Rejected thrown | NotOk | Ok 'a

record location =
  lat :: real
  lng :: real
  address :: "string option"

record user_context =
  healthGoals :: "string list option"
  mobilityLevel :: "string option"
  preferredActivities :: "string list option"
  location :: "location option"

text \<open>The decoded JSON body; an absent field is \<open>None\<close>.\<close>

record chat_request =
  message :: "string option"
  conversationId :: "string option"
  userContext :: "user_context option"

record request =
  http_method :: string
  authorization :: "string option"
  json :: "thrown + chat_request"

datatype response_body =
    NoBody
  | ChatResponse (response: string) (resp_conversationId: string) (resp_threadId: string)
  | ErrorBody (error: string)

record response =
  status :: nat
  body :: response_body

text \<open>Rows of the two tables, with the columns the handler writes or reads.\<close>

record conversation_row =
  user_id :: string
  conv_assistant_type :: assistant_type
  thread_id :: string

record message_row =
  conversation_id :: string
  msg_role :: role
  content :: string

record run =
  run_id :: string
  run_status :: string

record content_part =
  part_type :: string
  text_value :: string

record remote_message =
  remote_role :: string
  remote_content :: "content_part list"

text \<open>Every call that leaves the handler, in the order it is issued.\<close>

datatype event =
    AuthGetUser
  | SelectConversation string string
  | InsertConversation string assistant_type string
  | InsertMessage string role string
  | CreateThread
  | AppendMessage string string
  | CreateRun string string
  | Sleep nat
  | GetRun string string
  | ListMessages string

text \<open>
  The state a turn acts on: the \<^verbatim>\<open>conversations\<close> table keyed by its primary key, the
  \<^verbatim>\<open>messages\<close> table in insertion order, and the calls issued so far.
\<close>

record world =
  conversations :: "string \<rightharpoonup> conversation_row"
  messages :: "message_row list"
  trace :: "event list"

text \<open>
  What the surroundings answer during one turn: the auth service, the process
  environment, the store client (whether a call reports an \<^verbatim>\<open>error\<close>, and the id the
  database generates for a new conversation) and the remote assistant service. The
  \<open>k\<close>-th status poll of the turn is answered by \<open>statusResponse k\<close>.
\<close>

record env =
  getUser :: "string option"
  OPENAI_API_KEY :: "string option"
  HEALTH_COACH_ASSISTANT_ID :: "string option"
  EXCURSION_CREATOR_ASSISTANT_ID :: "string option"
  selectConversationError :: "thrown option"
  insertConversationError :: "thrown option"
  generatedConversationId :: string
  uniqueViolation :: thrown
  insertUserMessageError :: "thrown option"
  insertAssistantMessageError :: "thrown option"
  createThreadResponse :: "string fetch_result"
  addMessageResponse :: "unit fetch_result"
  runResponse :: "run fetch_result"
  statusResponse :: "nat \<Rightarrow> string fetch_result"
  messagesResponse :: "remote_message list fetch_result"

section \<open>Sequencing with exceptions\<close>

type_synonym 'a step = "world \<Rightarrow> (thrown + 'a) \<times> world"

definition throw :: "thrown \<Rightarrow> 'a step" where
  "throw e w = (Inl e, w)"

definition done_with :: "'a \<Rightarrow> 'a step" where
  "done_with a w = (Inr a, w)"

definition and_then :: "'a step \<Rightarrow> ('a \<Rightarrow> 'b step) \<Rightarrow> 'b step" where
  "and_then m f w = (case m w of (Inl e, w') \<Rightarrow> (Inl e, w') | (Inr a, w') \<Rightarrow> f a w')"

definition emit :: "event \<Rightarrow> unit step" where
  "emit e w = (Inr (), w\<lparr>trace := trace w @ [e]\<rparr>)"

text \<open>JavaScript truthiness of an optional string: absent and empty are both falsy.\<close>

fun truthy :: "string option \<Rightarrow> bool" where
  "truthy None = False"
| "truthy (Some s) = (s \<noteq> [])"

section \<open>The handler\<close>

subsection \<open>Resolving the conversation and its thread\<close>

text \<open>
  \<^verbatim>\<open>.eq("id", conversationId).eq("user_id", user.id).maybeSingle()\<close>: the row with that
  primary key, if the caller owns it.
\<close>

definition select_conversation ::
  "env \<Rightarrow> string \<Rightarrow> string \<Rightarrow> (string \<times> conversation_row) option step" where
  "select_conversation e cid uid =
     and_then (emit (SelectConversation cid uid)) (\<lambda>_.
       case selectConversationError e of
         Some convError \<Rightarrow> throw convError
       | None \<Rightarrow> (\<lambda>w.
           case conversations w cid of
             None \<Rightarrow> (Inr None, w)
           | Some row \<Rightarrow>
               if user_id row = uid then (Inr (Some (cid, row)), w) else (Inr None, w)))"

text \<open>
  \<^verbatim>\<open>.insert({user_id, assistant_type, thread_id}).select("id").single()\<close>: the database
  generates the id; the primary key rejects an id that is already present.
\<close>

definition insert_conversation ::
  "env \<Rightarrow> string \<Rightarrow> assistant_type \<Rightarrow> string \<Rightarrow> string step" where
  "insert_conversation e uid ty tid =
     and_then (emit (InsertConversation uid ty tid)) (\<lambda>_.
       case insertConversationError e of
         Some createError \<Rightarrow> throw createError
       | None \<Rightarrow> (\<lambda>w.
           if generatedConversationId e \<in> dom (conversations w) then (Inl (uniqueViolation e), w)
           else (Inr (generatedConversationId e),
                 w\<lparr>conversations := (conversations w)(generatedConversationId e \<mapsto>
                      \<lparr>user_id = uid, conv_assistant_type = ty, thread_id = tid\<rparr>)\<rparr>)))"

text \<open>
  The block the source writes twice (conversation not found, and no conversation id
  given): create a remote thread, then the conversation row bound to it. The result is
  \<open>(threadId, dbConversationId)\<close>.
\<close>

definition create_thread_and_conversation ::
  "assistant_type \<Rightarrow> env \<Rightarrow> string \<Rightarrow> (string \<times> string) step" where
  "create_thread_and_conversation ty e uid =
     and_then (emit CreateThread) (\<lambda>_.
       case createThreadResponse e of
         Rejected x \<Rightarrow> throw x
       | NotOk \<Rightarrow> throw (JsError ''Failed to create OpenAI thread'')
       | Ok threadId \<Rightarrow>
           and_then (insert_conversation e uid ty threadId) (\<lambda>newId.
             done_with (threadId, newId)))"

definition resolve_conversation ::
  "assistant_type \<Rightarrow> env \<Rightarrow> string \<Rightarrow> string option \<Rightarrow> (string \<times> string) step" where
  "resolve_conversation ty e uid conversationId' =
     (if truthy conversationId' then
        and_then (select_conversation e (the conversationId') uid) (\<lambda>conversation.
          case conversation of
            Some (cid, row) \<Rightarrow> done_with (thread_id row, cid)
          | None \<Rightarrow> create_thread_and_conversation ty e uid)
      else create_thread_and_conversation ty e uid)"

subsection \<open>Persisting messages\<close>

definition insert_message ::
  "thrown option \<Rightarrow> string \<Rightarrow> role \<Rightarrow> string \<Rightarrow> unit step" where
  "insert_message err cid r c =
     and_then (emit (InsertMessage cid r c)) (\<lambda>_.
       case err of
         Some msgError \<Rightarrow> throw msgError
       | None \<Rightarrow> (\<lambda>w.
           (Inr (), w\<lparr>messages := messages w @
              [\<lparr>conversation_id = cid, msg_role = r, content = c\<rparr>]\<rparr>)))"

subsection \<open>The text sent to the remote thread\<close>

fun join :: "string \<Rightarrow> string list \<Rightarrow> string" where
  "join sep [] = []"
| "join sep [x] = x"
| "join sep (x # y # ys) = x @ sep @ join sep (y # ys)"

definition length_truthy :: "string list option \<Rightarrow> bool" where
  "length_truthy xs = (case xs of None \<Rightarrow> False | Some l \<Rightarrow> l \<noteq> [])"

definition contextInfo :: "user_context \<Rightarrow> string list" where
  "contextInfo uc =
     [s. Some s \<leftarrow>
        [if length_truthy (healthGoals uc)
           then Some (''Health Goals: '' @ join '', '' (the (healthGoals uc))) else None,
         if truthy (mobilityLevel uc)
           then Some (''Mobility Level: '' @ the (mobilityLevel uc)) else None,
         if length_truthy (preferredActivities uc)
           then Some (''Preferred Activities: '' @ join '', '' (the (preferredActivities uc)))
           else None,
         if truthy (case location uc of None \<Rightarrow> None | Some l \<Rightarrow> address l)
           then Some (''Location: '' @ the (address (the (location uc)))) else None],
        s \<noteq> []]"

definition excursion_message_content :: "string \<Rightarrow> user_context option \<Rightarrow> string" where
  "excursion_message_content m uc =
     (case uc of
        None \<Rightarrow> m
      | Some c \<Rightarrow>
          if length (contextInfo c) > 0
          then m @ [CHR 0x0A, CHR 0x0A] @ ''User Context:'' @ [CHR 0x0A]
                 @ join [CHR 0x0A] (contextInfo c)
          else m)"

text \<open>
  The health coach endpoint destructures only \<^verbatim>\<open>message\<close> and \<^verbatim>\<open>conversationId\<close> and
  sends \<^verbatim>\<open>message\<close> itself.
\<close>

fun build_message_content :: "assistant_type \<Rightarrow> string \<Rightarrow> user_context option \<Rightarrow> string" where
  "build_message_content health_coach m uc = m"
| "build_message_content excursion_creator m uc = excursion_message_content m uc"

fun assistant_id_env :: "assistant_type \<Rightarrow> env \<Rightarrow> string option" where
  "assistant_id_env health_coach e = HEALTH_COACH_ASSISTANT_ID e"
| "assistant_id_env excursion_creator e = EXCURSION_CREATOR_ASSISTANT_ID e"

fun assistant_id_missing :: "assistant_type \<Rightarrow> string" where
  "assistant_id_missing health_coach = ''Health Coach Assistant ID not configured''"
| "assistant_id_missing excursion_creator = ''Excursion Creator Assistant ID not configured''"

subsection \<open>The poll loop\<close>

definition maxAttempts :: nat where
  "maxAttempts = 30"

definition terminal_failure :: "string \<Rightarrow> bool" where
  "terminal_failure s = (s = ''failed'' \<or> s = ''cancelled'' \<or> s = ''expired'')"

text \<open>
  \<^verbatim>\<open>while (runStatus !== "completed" && attempts < maxAttempts)\<close>: wait one second, fetch
  the run, read its status, count the attempt, and throw on a failed, cancelled or
  expired run. The result is the status the loop ends with.
\<close>

function poll_loop :: "env \<Rightarrow> string \<Rightarrow> string \<Rightarrow> string \<Rightarrow> nat \<Rightarrow> string step" where
  "poll_loop e threadId runId runStatus attempts w =
     (if runStatus \<noteq> ''completed'' \<and> attempts < maxAttempts then
        (case statusResponse e attempts of
           Rejected x \<Rightarrow>
             (Inl x, w\<lparr>trace := trace w @ [Sleep 1000, GetRun threadId runId]\<rparr>)
         | NotOk \<Rightarrow>
             (Inl (JsError ''Failed to check run status''),
              w\<lparr>trace := trace w @ [Sleep 1000, GetRun threadId runId]\<rparr>)
         | Ok status' \<Rightarrow>
             if terminal_failure status'
             then (Inl (JsError (''Assistant run '' @ status')),
                   w\<lparr>trace := trace w @ [Sleep 1000, GetRun threadId runId]\<rparr>)
             else poll_loop e threadId runId status' (attempts + 1)
                    (w\<lparr>trace := trace w @ [Sleep 1000, GetRun threadId runId]\<rparr>))
      else (Inr runStatus, w))"
  by pat_completeness auto
termination
  by (relation "measure (\<lambda>(e, threadId, runId, runStatus, attempts, w). maxAttempts - attempts)")
     auto

subsection \<open>Reading the reply\<close>

definition extract_reply :: "remote_message list \<Rightarrow> thrown + string" where
  "extract_reply data =
     (case find (\<lambda>msg. remote_role msg = ''assistant'') data of
        None \<Rightarrow> Inl (JsError ''No assistant response found'')
      | Some assistantMessage \<Rightarrow>
          (case find (\<lambda>c. part_type c = ''text'') (remote_content assistantMessage) of
             None \<Rightarrow> Inl (JsError ''No text content in assistant response'')
           | Some textContent \<Rightarrow> Inr (text_value textContent)))"

definition retrieve_reply :: "env \<Rightarrow> string \<Rightarrow> string \<Rightarrow> response_body step" where
  "retrieve_reply e threadId dbConversationId =
     and_then (emit (ListMessages threadId)) (\<lambda>_.
       case messagesResponse e of
         Rejected x \<Rightarrow> throw x
       | NotOk \<Rightarrow> throw (JsError ''Failed to retrieve messages'')
       | Ok data \<Rightarrow>
           (case extract_reply data of
              Inl x \<Rightarrow> throw x
            | Inr assistantResponse \<Rightarrow>
                and_then
                  (insert_message (insertAssistantMessageError e)
                     dbConversationId assistant assistantResponse) (\<lambda>_.
                  done_with (ChatResponse assistantResponse dbConversationId threadId))))"

subsection \<open>The body of the try block\<close>

text \<open>
  The body is one straight sequence in the source. It is cut here into the checks on the
  request with the resolution of the conversation (\<open>handler_body\<close>), the part from the
  insert of the user message (\<open>send_turn\<close>), the part from the lookup of the assistant
  id (\<open>run_assistant\<close>) and the part from the listing of the thread's messages
  (\<open>retrieve_reply\<close>), so that each part can be reasoned about on its own.
\<close>

definition run_assistant ::
  "assistant_type \<Rightarrow> env \<Rightarrow> string \<Rightarrow> string \<Rightarrow> response_body step" where
  "run_assistant ty e threadId dbConversationId =
     (if \<not> truthy (assistant_id_env ty e) then throw (JsError (assistant_id_missing ty))
      else
        and_then (emit (CreateRun threadId (the (assistant_id_env ty e)))) (\<lambda>_.
          case runResponse e of
            Rejected x \<Rightarrow> throw x
          | NotOk \<Rightarrow> throw (JsError ''Failed to run assistant'')
          | Ok r \<Rightarrow>
              and_then (poll_loop e threadId (run_id r) (run_status r) 0) (\<lambda>runStatus.
                if runStatus \<noteq> ''completed'' then throw (JsError ''Assistant run timed out'')
                else retrieve_reply e threadId dbConversationId)))"

definition send_turn ::
  "assistant_type \<Rightarrow> env \<Rightarrow> string \<Rightarrow> string \<Rightarrow> user_context option \<Rightarrow> string \<Rightarrow> string
     \<Rightarrow> response_body step" where
  "send_turn ty e uid m uc threadId dbConversationId =
     and_then (insert_message (insertUserMessageError e) dbConversationId user m) (\<lambda>_.
       and_then (emit (AppendMessage threadId (build_message_content ty m uc))) (\<lambda>_.
         case addMessageResponse e of
           Rejected x \<Rightarrow> throw x
         | NotOk \<Rightarrow> throw (JsError ''Failed to add message to thread'')
         | Ok _ \<Rightarrow> run_assistant ty e threadId dbConversationId))"

definition handler_body :: "assistant_type \<Rightarrow> request \<Rightarrow> env \<Rightarrow> response_body step" where
  "handler_body ty req e =
     (if \<not> truthy (authorization req) then throw (JsError ''No authorization header'')
      else
        and_then (emit AuthGetUser) (\<lambda>_.
          case getUser e of
            None \<Rightarrow> throw (JsError ''Unauthorized'')
          | Some uid \<Rightarrow>
              (case json req of
                 Inl x \<Rightarrow> throw x
               | Inr b \<Rightarrow>
                   if \<not> truthy (message b) then throw (JsError ''Message is required'')
                   else if \<not> truthy (OPENAI_API_KEY e)
                   then throw (JsError ''OpenAI API key not configured'')
                   else
                     and_then (resolve_conversation ty e uid (conversationId b))
                       (\<lambda>(threadId, dbConversationId).
                          send_turn ty e uid (the (message b)) (userContext b)
                            threadId dbConversationId))))"

subsection \<open>The handler boundary\<close>

text \<open>
  The \<^verbatim>\<open>catch\<close> block: an \<^verbatim>\<open>Error\<close> instance is reported with its message, anything
  else with a fixed text; both with status 500. A response built without a status has
  status 200. Response headers (CORS, content type) are the same on every path and
  are left out.
\<close>

fun error_message :: "thrown \<Rightarrow> string" where
  "error_message (JsError m) = m"
| "error_message NonError = ''An unknown error occurred''"

fun respond :: "thrown + response_body \<Rightarrow> response" where
  "respond (Inr responseData) = \<lparr>status = 200, body = responseData\<rparr>"
| "respond (Inl x) = \<lparr>status = 500, body = ErrorBody (error_message x)\<rparr>"

definition handler :: "assistant_type \<Rightarrow> request \<Rightarrow> env \<Rightarrow> world \<Rightarrow> response \<times> world" where
  "handler ty req e w =
     (if http_method req = ''OPTIONS'' then (\<lparr>status = 200, body = NoBody\<rparr>, w)
      else (case handler_body ty req e w of (res, w') \<Rightarrow> (respond res, w')))"

text \<open>A turn starts on the tables as they are, with no call issued yet.\<close>

definition new_world :: "(string \<rightharpoonup> conversation_row) \<Rightarrow> message_row list \<Rightarrow> world" where
  "new_world cs ms = \<lparr>conversations = cs, messages = ms, trace = []\<rparr>"

subsection \<open>Reading a trace\<close>

fun is_poll :: "event \<Rightarrow> bool" where
  "is_poll (GetRun _ _) = True"
| "is_poll _ = False"

text \<open>The number of status polls in a trace.\<close>

definition polls :: "event list \<Rightarrow> nat" where
  "polls tr = length (filter is_poll tr)"

text \<open>\<open>n\<close> rounds of the loop body: wait 1000 ms, then fetch the run.\<close>

definition poll_events :: "string \<Rightarrow> string \<Rightarrow> nat \<Rightarrow> event list" where
  "poll_events t r n = concat (replicate n [Sleep 1000, GetRun t r])"

text \<open>The calls issued from the creation of the run onwards, for thread \<open>t\<close> and conversation \<open>c\<close>.\<close>

fun run_event :: "string \<Rightarrow> string \<Rightarrow> event \<Rightarrow> bool" where
  "run_event t c (CreateRun t' _) = (t' = t)"
| "run_event t c (Sleep n) = (n = 1000)"
| "run_event t c (GetRun t' _) = (t' = t)"
| "run_event t c (ListMessages t') = (t' = t)"
| "run_event t c (InsertMessage c' r _) = (c' = c \<and> r = assistant)"
| "run_event t c _ = False"

text \<open>The calls issued before the run is created.\<close>

fun prefix_event :: "event \<Rightarrow> bool" where
  "prefix_event (CreateRun _ _) = False"
| "prefix_event (Sleep _) = False"
| "prefix_event (GetRun _ _) = False"
| "prefix_event (ListMessages _) = False"
| "prefix_event (InsertMessage _ r _) = (r = user)"
| "prefix_event _ = True"

text \<open>The lookup issued when a (truthy) conversation id is supplied.\<close>

definition select_events :: "string \<Rightarrow> string option \<Rightarrow> event list" where
  "select_events uid co = (if truthy co then [SelectConversation (the co) uid] else [])"

text \<open>The thread identifier an event carries, if any.\<close>

fun event_thread :: "event \<Rightarrow> string option" where
  "event_thread (InsertConversation _ _ t) = Some t"
| "event_thread (AppendMessage t _) = Some t"
| "event_thread (CreateRun t _) = Some t"
| "event_thread (GetRun t _) = Some t"
| "event_thread (ListMessages t) = Some t"
| "event_thread _ = None"

section \<open>The client SDK's reads\<close>

text \<open>
  \<^verbatim>\<open>src/lib/assistants-api.ts\<close> reads the two tables directly through the store client.
  Rows are as the interfaces \<^verbatim>\<open>Conversation\<close> and \<^verbatim>\<open>ChatMessage\<close> declare them (field
  names prefixed, timestamps as integers). The store client and the database are not
  part of the source: a query is the list of clauses the builder calls add, and running
  it keeps the rows the row-level policies of the migration show to the caller, applies
  the \<^verbatim>\<open>eq\<close> filters and sorts by the \<^verbatim>\<open>order\<close> clause.
\<close>

record Conversation =
  c_id :: string
  c_user_id :: string
  c_assistant_type :: assistant_type
  c_thread_id :: string
  c_created_at :: int
  c_updated_at :: int

record ChatMessage =
  m_id :: string
  m_conversation_id :: string
  m_role :: role
  m_content :: string
  m_created_at :: int

record database =
  conversations_table :: "Conversation list"
  messages_table :: "ChatMessage list"

text \<open>Policy "Users can view own conversations": \<^verbatim>\<open>auth.uid() = user_id\<close>.\<close>

definition visible_conversations :: "string \<Rightarrow> database \<Rightarrow> Conversation list" where
  "visible_conversations uid db = filter (\<lambda>c. c_user_id c = uid) (conversations_table db)"

text \<open>Policy "Users can view own messages": the conversation exists and is the caller's.\<close>

definition visible_messages :: "string \<Rightarrow> database \<Rightarrow> ChatMessage list" where
  "visible_messages uid db =
     filter (\<lambda>m. list_ex (\<lambda>c. c_id c = m_conversation_id m \<and> c_user_id c = uid)
                  (conversations_table db))
       (messages_table db)"

record 'r query =
  filters :: "('r \<Rightarrow> bool) list"
  ordering :: "(('r \<Rightarrow> int) \<times> bool) option"

definition select_all :: "'r query" where
  "select_all = \<lparr>filters = [], ordering = None\<rparr>"

definition eq_filter :: "('r \<Rightarrow> 'v) \<Rightarrow> 'v \<Rightarrow> 'r query \<Rightarrow> 'r query" where
  "eq_filter col v q = q\<lparr>filters := filters q @ [\<lambda>r. col r = v]\<rparr>"

definition order_by :: "('r \<Rightarrow> int) \<Rightarrow> bool \<Rightarrow> 'r query \<Rightarrow> 'r query" where
  "order_by col ascending q = q\<lparr>ordering := Some (col, ascending)\<rparr>"

definition run_query :: "'r list \<Rightarrow> 'r query \<Rightarrow> 'r list" where
  "run_query rows q =
     (let kept = filter (\<lambda>r. list_all (\<lambda>p. p r) (filters q)) rows
      in case ordering q of
           None \<Rightarrow> kept
         | Some (col, ascending) \<Rightarrow>
             if ascending then sort_key col kept else rev (sort_key col kept))"

text \<open>
  \<open>err\<close> is the \<^verbatim>\<open>error\<close> the awaited query reports (its message), if any; the result is
  the thrown message or the returned rows.
\<close>

definition getConversations ::
  "string \<Rightarrow> database \<Rightarrow> string option \<Rightarrow> assistant_type option \<Rightarrow> string + Conversation list" where
  "getConversations uid db err assistantType =
     (let query = order_by c_updated_at False select_all;
          query = (case assistantType of
                     Some ty \<Rightarrow> eq_filter c_assistant_type ty query
                   | None \<Rightarrow> query)
      in case err of
           Some msg \<Rightarrow> Inl (''Failed to fetch conversations: '' @ msg)
         | None \<Rightarrow> Inr (run_query (visible_conversations uid db) query))"

definition getMessages ::
  "string \<Rightarrow> database \<Rightarrow> string option \<Rightarrow> string \<Rightarrow> string + ChatMessage list" where
  "getMessages uid db err conversationId' =
     (let query = order_by m_created_at True
                    (eq_filter m_conversation_id conversationId' select_all)
      in case err of
           Some msg \<Rightarrow> Inl (''Failed to fetch messages: '' @ msg)
         | None \<Rightarrow> Inr (run_query (visible_messages uid db) query))"

section \<open>Sample inputs\<close>

definition beach_context :: user_context where
  "beach_context =
     \<lparr>healthGoals = Some [''walk more'', ''sleep better''], mobilityLevel = Some ''moderate'',
      preferredActivities = None,
      location = Some \<lparr>lat = 34, lng = -118, address = Some ''Santa Monica''\<rparr>\<rparr>"

definition beach_body :: chat_request where
  "beach_body =
     \<lparr>message = Some ''Plan a beach day'', conversationId = None,
      userContext = Some beach_context\<rparr>"

definition beach_request :: request where
  "beach_request =
     \<lparr>http_method = ''POST'', authorization = Some ''Bearer abc'', json = Inr beach_body\<rparr>"

definition pier_reply :: "remote_message list" where
  "pier_reply =
     [\<lparr>remote_role = ''user'', remote_content = []\<rparr>,
      \<lparr>remote_role = ''assistant'',
       remote_content = [\<lparr>part_type = ''text'', text_value = ''Walk to the pier''\<rparr>]\<rparr>]"

text \<open>Everything answers; the run is queued, in progress once, then completed.\<close>

definition good_env :: env where
  "good_env =
     \<lparr>getUser = Some ''u1'', OPENAI_API_KEY = Some ''sk'',
      HEALTH_COACH_ASSISTANT_ID = Some ''asst_h'',
      EXCURSION_CREATOR_ASSISTANT_ID = Some ''asst_x'',
      selectConversationError = None, insertConversationError = None,
      generatedConversationId = ''c9'', uniqueViolation = NonError,
      insertUserMessageError = None, insertAssistantMessageError = None,
      createThreadResponse = Ok ''t9'', addMessageResponse = Ok (),
      runResponse = Ok \<lparr>run_id = ''r1'', run_status = ''queued''\<rparr>,
      statusResponse = (\<lambda>k. if k = 0 then Ok ''in_progress'' else Ok ''completed''),
      messagesResponse = Ok pier_reply\<rparr>"

text \<open>The run never leaves \<^verbatim>\<open>in_progress\<close>.\<close>

definition stuck_env :: env where
  "stuck_env = good_env\<lparr>statusResponse := (\<lambda>k. Ok ''in_progress'')\<rparr>"

text \<open>The third poll reports the run as expired.\<close>

definition expiring_env :: env where
  "expiring_env =
     good_env\<lparr>statusResponse := (\<lambda>k. if k = 2 then Ok ''expired'' else Ok ''in_progress'')\<rparr>"

definition beach_content :: string where
  "beach_content =
     ''Plan a beach day'' @ [CHR 0x0A, CHR 0x0A] @ ''User Context:'' @ [CHR 0x0A] @
     ''Health Goals: walk more, sleep better'' @ [CHR 0x0A] @
     ''Mobility Level: moderate'' @ [CHR 0x0A] @ ''Location: Santa Monica''"

definition beach_prefix :: "event list" where
  "beach_prefix =
     [AuthGetUser, CreateThread, InsertConversation ''u1'' excursion_creator ''t9'',
      InsertMessage ''c9'' user ''Plan a beach day'', AppendMessage ''t9'' beach_content]"

definition beach_conversations :: "string \<rightharpoonup> conversation_row" where
  "beach_conversations =
     [''c9'' \<mapsto> \<lparr>user_id = ''u1'', conv_assistant_type = excursion_creator, thread_id = ''t9''\<rparr>]"

definition beach_user_row :: message_row where
  "beach_user_row = \<lparr>conversation_id = ''c9'', msg_role = user, content = ''Plan a beach day''\<rparr>"

definition stuck_world :: world where
  "stuck_world =
     \<lparr>conversations = beach_conversations, messages = [beach_user_row],
      trace = beach_prefix @ [CreateRun ''t9'' ''asst_x''] @ poll_events ''t9'' ''r1'' 30\<rparr>"

definition expired_world :: world where
  "expired_world =
     \<lparr>conversations = beach_conversations, messages = [beach_user_row],
      trace = beach_prefix @ [CreateRun ''t9'' ''asst_x''] @ poll_events ''t9'' ''r1'' 3\<rparr>"

definition beach_assistant_row :: message_row where
  "beach_assistant_row =
     \<lparr>conversation_id = ''c9'', msg_role = assistant, content = ''Walk to the pier''\<rparr>"

definition reply_events :: "event list" where
  "reply_events = [ListMessages ''t9'', InsertMessage ''c9'' assistant ''Walk to the pier'']"

definition pier_response :: response where
  "pier_response = \<lparr>status = 200, body = ChatResponse ''Walk to the pier'' ''c9'' ''t9''\<rparr>"

definition good_world :: world where
  "good_world =
     \<lparr>conversations = beach_conversations, messages = [beach_user_row, beach_assistant_row],
      trace = beach_prefix @ [CreateRun ''t9'' ''asst_x''] @ poll_events ''t9'' ''r1'' 2 @
              reply_events\<rparr>"

text \<open>The remote service refuses the appended message.\<close>

definition append_down_env :: env where
  "append_down_env = good_env\<lparr>addMessageResponse := NotOk\<rparr>"

definition append_failed_world :: world where
  "append_failed_world =
     \<lparr>conversations = beach_conversations, messages = [beach_user_row], trace = beach_prefix\<rparr>"

text \<open>The store rejects the user message with a value that is no \<^verbatim>\<open>Error\<close>.\<close>

definition store_down_env :: env where
  "store_down_env = good_env\<lparr>insertUserMessageError := Some NonError\<rparr>"

definition store_failed_world :: world where
  "store_failed_world =
     \<lparr>conversations = beach_conversations, messages = [],
      trace = [AuthGetUser, CreateThread, InsertConversation ''u1'' excursion_creator ''t9'',
               InsertMessage ''c9'' user ''Plan a beach day'']\<rparr>"

text \<open>A conversation of another user, and a request that names it.\<close>

definition other_row :: conversation_row where
  "other_row = \<lparr>user_id = ''u2'', conv_assistant_type = health_coach, thread_id = ''t1''\<rparr>"

definition foreign_conversations :: "string \<rightharpoonup> conversation_row" where
  "foreign_conversations = [''c1'' \<mapsto> other_row]"

definition foreign_body :: chat_request where
  "foreign_body = beach_body\<lparr>conversationId := Some ''c1''\<rparr>"

definition foreign_request :: request where
  "foreign_request = beach_request\<lparr>json := Inr foreign_body\<rparr>"

definition foreign_world :: world where
  "foreign_world =
     \<lparr>conversations = foreign_conversations(''c9'' \<mapsto>
        \<lparr>user_id = ''u1'', conv_assistant_type = excursion_creator, thread_id = ''t9''\<rparr>),
      messages = [beach_user_row, beach_assistant_row],
      trace = [AuthGetUser, SelectConversation ''c1'' ''u1'', CreateThread,
               InsertConversation ''u1'' excursion_creator ''t9'',
               InsertMessage ''c9'' user ''Plan a beach day'', AppendMessage ''t9'' beach_content,
               CreateRun ''t9'' ''asst_x''] @ poll_events ''t9'' ''r1'' 2 @ reply_events\<rparr>"

definition unauthorised_request :: request where
  "unauthorised_request = beach_request\<lparr>authorization := None\<rparr>"

definition blank_body :: chat_request where
  "blank_body = beach_body\<lparr>message := Some []\<rparr>"

definition blank_request :: request where
  "blank_request = beach_request\<lparr>json := Inr blank_body\<rparr>"

text \<open>
  The create-run response already says \<^verbatim>\<open>failed\<close>; the first poll says \<^verbatim>\<open>cancelled\<close>, or
  \<^verbatim>\<open>completed\<close>. Or the create-run response already says \<^verbatim>\<open>completed\<close>.
\<close>

definition failed_run :: run where
  "failed_run = \<lparr>run_id = ''r1'', run_status = ''failed''\<rparr>"

definition completed_run :: run where
  "completed_run = \<lparr>run_id = ''r1'', run_status = ''completed''\<rparr>"

definition failed_then_cancelled_env :: env where
  "failed_then_cancelled_env =
     good_env\<lparr>runResponse := Ok failed_run, statusResponse := (\<lambda>k. Ok ''cancelled'')\<rparr>"

definition failed_then_completed_env :: env where
  "failed_then_completed_env =
     good_env\<lparr>runResponse := Ok failed_run, statusResponse := (\<lambda>k. Ok ''completed'')\<rparr>"

definition completed_at_once_env :: env where
  "completed_at_once_env = good_env\<lparr>runResponse := Ok completed_run\<rparr>"

definition cancelled_world :: world where
  "cancelled_world =
     \<lparr>conversations = beach_conversations, messages = [beach_user_row],
      trace = beach_prefix @ [CreateRun ''t9'' ''asst_x''] @ poll_events ''t9'' ''r1'' 1\<rparr>"

definition recovered_world :: world where
  "recovered_world =
     \<lparr>conversations = beach_conversations, messages = [beach_user_row, beach_assistant_row],
      trace = beach_prefix @ [CreateRun ''t9'' ''asst_x''] @ poll_events ''t9'' ''r1'' 1 @
              reply_events\<rparr>"

definition immediate_world :: world where
  "immediate_world =
     \<lparr>conversations = beach_conversations, messages = [beach_user_row, beach_assistant_row],
      trace = beach_prefix @ [CreateRun ''t9'' ''asst_x''] @ reply_events\<rparr>"

text \<open>The same request at the health coach endpoint.\<close>

definition coach_world :: world where
  "coach_world =
     \<lparr>conversations = [''c9'' \<mapsto>
        \<lparr>user_id = ''u1'', conv_assistant_type = health_coach, thread_id = ''t9''\<rparr>],
      messages = [beach_user_row, beach_assistant_row],
      trace = [AuthGetUser, CreateThread, InsertConversation ''u1'' health_coach ''t9'',
               InsertMessage ''c9'' user ''Plan a beach day'',
               AppendMessage ''t9'' ''Plan a beach day'', CreateRun ''t9'' ''asst_h''] @
              poll_events ''t9'' ''r1'' 2 @ reply_events\<rparr>"

text \<open>A small database: two conversations of \<^verbatim>\<open>u1\<close>, one of \<^verbatim>\<open>u2\<close>, three messages.\<close>

definition k1 :: Conversation where
  "k1 = \<lparr>c_id = ''k1'', c_user_id = ''u1'', c_assistant_type = health_coach,
         c_thread_id = ''t1'', c_created_at = 1, c_updated_at = 5\<rparr>"

definition k2 :: Conversation where
  "k2 = \<lparr>c_id = ''k2'', c_user_id = ''u1'', c_assistant_type = excursion_creator,
         c_thread_id = ''t2'', c_created_at = 2, c_updated_at = 9\<rparr>"

definition k3 :: Conversation where
  "k3 = \<lparr>c_id = ''k3'', c_user_id = ''u2'', c_assistant_type = health_coach,
         c_thread_id = ''t3'', c_created_at = 3, c_updated_at = 7\<rparr>"

definition m1 :: ChatMessage where
  "m1 = \<lparr>m_id = ''m1'', m_conversation_id = ''k1'', m_role = user, m_content = ''hi'',
         m_created_at = 4\<rparr>"

definition m2 :: ChatMessage where
  "m2 = \<lparr>m_id = ''m2'', m_conversation_id = ''k1'', m_role = assistant, m_content = ''hello'',
         m_created_at = 5\<rparr>"

definition m3 :: ChatMessage where
  "m3 = \<lparr>m_id = ''m3'', m_conversation_id = ''k3'', m_role = user, m_content = ''hey'',
         m_created_at = 6\<rparr>"

definition sample_db :: database where
  "sample_db = \<lparr>conversations_table = [k1, k3, k2], messages_table = [m2, m3, m1]\<rparr>"

section \<open>Reading failures off a trace\<close>

text \<open>
  What the response is when a call made from the creation of the run onwards fails:
  the run could not be created, a status poll failed or reported a failed, cancelled or
  expired run, the 30th poll still found the run unfinished, the messages could not be
  read or hold no assistant text, or a call threw.
\<close>

definition run_failures :: "env \<Rightarrow> response \<Rightarrow> event list \<Rightarrow> bool" where
  "run_failures e resp tr \<longleftrightarrow>
     ((\<exists>t a. CreateRun t a \<in> set tr) \<and> runResponse e = NotOk \<longrightarrow>
        resp = \<lparr>status = 500, body = ErrorBody ''Failed to run assistant''\<rparr>) \<and>
     (\<forall>k. k < polls tr \<and> statusResponse e k = NotOk \<longrightarrow>
        resp = \<lparr>status = 500, body = ErrorBody ''Failed to check run status''\<rparr>) \<and>
     (\<forall>k st. k < polls tr \<and> statusResponse e k = Ok st \<and> (st = ''failed'' \<or> st = ''cancelled'' \<or> st = ''expired'') \<longrightarrow>
        resp = \<lparr>status = 500, body = ErrorBody (''Assistant run '' @ st)\<rparr>) \<and>
     (\<forall>st. polls tr = 30 \<and> statusResponse e 29 = Ok st \<and> st \<noteq> ''completed'' \<and>
          \<not> (st = ''failed'' \<or> st = ''cancelled'' \<or> st = ''expired'') \<longrightarrow>
        resp = \<lparr>status = 500, body = ErrorBody ''Assistant run timed out''\<rparr>) \<and>
     ((\<exists>t. ListMessages t \<in> set tr) \<and> messagesResponse e = NotOk \<longrightarrow>
        resp = \<lparr>status = 500, body = ErrorBody ''Failed to retrieve messages''\<rparr>) \<and>
     (\<forall>data. (\<exists>t. ListMessages t \<in> set tr) \<and> messagesResponse e = Ok data \<and>
          find (\<lambda>msg. remote_role msg = ''assistant'') data = None \<longrightarrow>
        resp = \<lparr>status = 500, body = ErrorBody ''No assistant response found''\<rparr>) \<and>
     (\<forall>data am. (\<exists>t. ListMessages t \<in> set tr) \<and> messagesResponse e = Ok data \<and>
          find (\<lambda>msg. remote_role msg = ''assistant'') data = Some am \<and>
          find (\<lambda>p. part_type p = ''text'') (remote_content am) = None \<longrightarrow>
        resp = \<lparr>status = 500, body = ErrorBody ''No text content in assistant response''\<rparr>) \<and>
     (\<forall>x. ((\<exists>t a. CreateRun t a \<in> set tr) \<and> runResponse e = Rejected x) \<or>
          (\<exists>k. k < polls tr \<and> statusResponse e k = Rejected x) \<or>
          ((\<exists>t. ListMessages t \<in> set tr) \<and> messagesResponse e = Rejected x) \<or>
          ((\<exists>c reply. InsertMessage c assistant reply \<in> set tr) \<and>
             insertAssistantMessageError e = Some x) \<longrightarrow>
        resp = \<lparr>status = 500, body = ErrorBody 
          (case x of JsError m \<Rightarrow> m | NonError \<Rightarrow> ''An unknown error occurred'')\<rparr>)"

text \<open>
  The same for the calls made before the run is created: the conversation lookup, the
  creation of the thread and of the conversation row, the insert of the user message,
  the append to the thread, and the lookup of the assistant id.
\<close>

definition turn_failures :: "assistant_type \<Rightarrow> env \<Rightarrow> response \<Rightarrow> event list \<Rightarrow> bool" where
  "turn_failures ty e resp tr \<longleftrightarrow>
     (\<forall>x. ((\<exists>c u. SelectConversation c u \<in> set tr) \<and> selectConversationError e = Some x) \<or>
          (CreateThread \<in> set tr \<and> createThreadResponse e = Rejected x) \<or>
          ((\<exists>u a t. InsertConversation u a t \<in> set tr) \<and> insertConversationError e = Some x) \<or>
          ((\<exists>c m. InsertMessage c user m \<in> set tr) \<and> insertUserMessageError e = Some x) \<or>
          ((\<exists>t c. AppendMessage t c \<in> set tr) \<and> addMessageResponse e = Rejected x) \<longrightarrow>
        resp = \<lparr>status = 500, body = ErrorBody 
          (case x of JsError m \<Rightarrow> m | NonError \<Rightarrow> ''An unknown error occurred'')\<rparr>) \<and>
     (CreateThread \<in> set tr \<and> createThreadResponse e = NotOk \<longrightarrow>
        resp = \<lparr>status = 500, body = ErrorBody ''Failed to create OpenAI thread''\<rparr>) \<and>
     ((\<exists>t c. AppendMessage t c \<in> set tr) \<and> addMessageResponse e = NotOk \<longrightarrow>
        resp = \<lparr>status = 500, body = ErrorBody ''Failed to add message to thread''\<rparr>) \<and>
     ((\<exists>t c. AppendMessage t c \<in> set tr) \<and> addMessageResponse e = Ok () \<and>
          \<not> truthy 
            (case ty of health_coach \<Rightarrow> HEALTH_COACH_ASSISTANT_ID e | excursion_creator \<Rightarrow> EXCURSION_CREATOR_ASSISTANT_ID e) \<longrightarrow>
        resp = \<lparr>status = 500, body = ErrorBody 
          (case ty of health_coach \<Rightarrow> ''Health Coach Assistant ID not configured'' | excursion_creator \<Rightarrow> ''Excursion Creator Assistant ID not configured'')\<rparr>)"

section \<open>Further sample inputs\<close>

text \<open>No assistant id is configured for the excursion endpoint.\<close>

definition no_assistant_env :: env where
  "no_assistant_env = good_env\<lparr>EXCURSION_CREATOR_ASSISTANT_ID := None\<rparr>"

definition auth_only_world :: world where
  "auth_only_world = \<lparr>conversations = Map.empty, messages = [], trace = [AuthGetUser]\<rparr>"

section \<open>Facts about the poll loop\<close>

lemma polls_append [simp]: "polls (xs @ ys) = polls xs + polls ys"
  by (simp add: polls_def)

lemma polls_poll_events [simp]: "polls (poll_events t r n) = n"
  by (induction n) (simp_all add: polls_def poll_events_def)

lemma poll_events_Suc: "poll_events t r (Suc n) = [Sleep 1000, GetRun t r] @ poll_events t r n"
  by (simp add: poll_events_def)

lemma poll_events_0 [simp]: "poll_events t r 0 = []"
  by (simp add: poll_events_def)

declare poll_loop.simps [simp del]

lemma poll_loop_shape:
  "poll_loop e t r s a w = (res, w') \<Longrightarrow>
     \<exists>n. n \<le> maxAttempts - a \<and> w' = w\<lparr>trace := trace w @ poll_events t r n\<rparr> \<and>
         (s \<noteq> ''completed'' \<and> a < maxAttempts \<longrightarrow> 0 < n)"
proof (induction e t r s a w arbitrary: res w' rule: poll_loop.induct)
  case (1 e t r s a w)
  let ?w1 = "w\<lparr>trace := trace w @ [Sleep 1000, GetRun t r]\<rparr>"
  show ?case
  proof (cases "s \<noteq> ''completed'' \<and> a < maxAttempts")
    case False
    with "1.prems" have "w' = w" by (simp add: poll_loop.simps [of e t r s a w])
    then show ?thesis using False by (intro exI [of _ 0]) simp
  next
    case guard: True
    show ?thesis
    proof (cases "\<exists>st. statusResponse e a = Ok st \<and> \<not> terminal_failure st")
      case True
      then obtain st where st: "statusResponse e a = Ok st" "\<not> terminal_failure st" by blast
      with guard "1.prems" have "poll_loop e t r st (a + 1) ?w1 = (res, w')"
        by (simp add: poll_loop.simps [of e t r s a w])
      from "1.IH" [OF guard st(1) st(2) this]
      obtain n where n: "n \<le> maxAttempts - (a + 1)" "w' = ?w1\<lparr>trace := trace ?w1 @ poll_events t r n\<rparr>"
        by blast
      from n(1) guard have "Suc n \<le> maxAttempts - a" by arith
      with n(2) show ?thesis
        by (intro exI [of _ "Suc n"]) (simp add: poll_events_Suc)
    next
      case False
      with guard "1.prems" have "w' = ?w1"
        by (cases "statusResponse e a") (auto simp: poll_loop.simps [of e t r s a w] split: if_splits)
      moreover from guard have "1 \<le> maxAttempts - a" by arith
      ultimately show ?thesis
        by (intro exI [of _ 1]) (simp add: poll_events_Suc)
    qed
  qed
qed

lemma poll_loop_result:
  "poll_loop e t r s a w = (Inr s', w') \<Longrightarrow> s' \<noteq> ''completed'' \<Longrightarrow>
     w' = w\<lparr>trace := trace w @ poll_events t r (maxAttempts - a)\<rparr>"
proof (induction e t r s a w arbitrary: w' rule: poll_loop.induct)
  case (1 e t r s a w)
  let ?w1 = "w\<lparr>trace := trace w @ [Sleep 1000, GetRun t r]\<rparr>"
  show ?case
  proof (cases "s \<noteq> ''completed'' \<and> a < maxAttempts")
    case False
    with "1.prems" show ?thesis by (simp add: poll_loop.simps [of e t r s a w])
  next
    case guard: True
    from guard "1.prems" obtain st where st: "statusResponse e a = Ok st" "\<not> terminal_failure st"
      and rec: "poll_loop e t r st (a + 1) ?w1 = (Inr s', w')"
      by (cases "statusResponse e a") (auto simp: poll_loop.simps [of e t r s a w] split: if_splits)
    from "1.IH" [OF guard st rec "1.prems"(2)]
    have "w' = ?w1\<lparr>trace := trace ?w1 @ poll_events t r (maxAttempts - (a + 1))\<rparr>" .
    moreover from guard have "maxAttempts - a = Suc (maxAttempts - (a + 1))" by arith
    ultimately show ?thesis by (simp add: poll_events_Suc)
  qed
qed

lemma poll_loop_never_terminal:
  "s \<noteq> ''completed'' \<Longrightarrow>
   \<forall>k. a \<le> k \<and> k < maxAttempts \<longrightarrow>
       (\<exists>st. statusResponse e k = Ok st \<and> st \<noteq> ''completed'' \<and> \<not> terminal_failure st) \<Longrightarrow>
   \<exists>s'. s' \<noteq> ''completed'' \<and> fst (poll_loop e t r s a w) = Inr s'"
proof (induction e t r s a w rule: poll_loop.induct)
  case (1 e t r s a w)
  show ?case
  proof (cases "a < maxAttempts")
    case False
    with "1.prems" show ?thesis by (simp add: poll_loop.simps [of e t r s a w])
  next
    case True
    with "1.prems" obtain st where st: "statusResponse e a = Ok st" "st \<noteq> ''completed''"
      "\<not> terminal_failure st" by (metis order_refl)
    have "\<exists>s'. s' \<noteq> ''completed'' \<and>
      fst (poll_loop e t r st (a + 1) (w\<lparr>trace := trace w @ [Sleep 1000, GetRun t r]\<rparr>)) = Inr s'"
      using "1.IH" [of st] "1.prems" True st by simp
    then show ?thesis using "1.prems"(1) True st
      by (simp add: poll_loop.simps [of e t r s a w])
  qed
qed

lemma poll_loop_terminal:
  "poll_loop e t r s a w = (res, w') \<Longrightarrow> a \<le> k \<Longrightarrow>
   k - a < polls (trace w') - polls (trace w) \<Longrightarrow>
   statusResponse e k = Ok st \<Longrightarrow> terminal_failure st \<Longrightarrow>
     polls (trace w') = polls (trace w) + (k - a) + 1 \<and>
     res = Inl (JsError (''Assistant run '' @ st)) \<and>
     (\<exists>pre. trace w' = pre @ [Sleep 1000, GetRun t r])"
proof (induction e t r s a w arbitrary: res w' rule: poll_loop.induct)
  case (1 e t r s a w)
  let ?w1 = "w\<lparr>trace := trace w @ [Sleep 1000, GetRun t r]\<rparr>"
  have p1: "polls (trace ?w1) = polls (trace w) + 1" by (simp add: polls_def)
  show ?case
  proof (cases "s \<noteq> ''completed'' \<and> a < maxAttempts")
    case False
    with "1.prems"(1) have "w' = w" by (simp add: poll_loop.simps [of e t r s a w])
    with "1.prems"(3) show ?thesis by simp
  next
    case guard: True
    show ?thesis
    proof (cases "\<exists>st'. statusResponse e a = Ok st' \<and> \<not> terminal_failure st'")
      case True
      then obtain st' where st': "statusResponse e a = Ok st'" "\<not> terminal_failure st'" by blast
      with guard "1.prems"(1) have rec: "poll_loop e t r st' (a + 1) ?w1 = (res, w')"
        by (simp add: poll_loop.simps [of e t r s a w])
      from st' "1.prems"(4,5) have "k \<noteq> a" by auto
      with "1.prems"(2) have k: "a + 1 \<le> k" by simp
      with "1.prems"(3) p1 have "k - (a + 1) < polls (trace w') - polls (trace ?w1)" by simp
      from "1.IH" [OF guard st' rec k this "1.prems"(4,5)] p1 k show ?thesis by simp
    next
      case False
      with guard "1.prems"(1) have w': "w' = ?w1"
        by (cases "statusResponse e a") (auto simp: poll_loop.simps [of e t r s a w] split: if_splits)
      with "1.prems"(3) p1 have "k - a = 0" by simp
      with "1.prems"(2) have "k = a" by simp
      with "1.prems"(1,4,5) guard have "res = Inl (JsError (''Assistant run '' @ st))"
        by (simp add: poll_loop.simps [of e t r s a w])
      with w' p1 \<open>k = a\<close> show ?thesis by simp
    qed
  qed
qed

section \<open>What each part of the handler can do\<close>

lemmas step_defs = and_then_def emit_def throw_def done_with_def

lemma truthy_iff: "truthy x \<longleftrightarrow> (\<exists>s. x = Some s \<and> s \<noteq> [])"
  by (cases x) simp_all

lemma handler_inv:
  "handler ty req e w = (resp, w') \<Longrightarrow>
     (http_method req = ''OPTIONS'' \<and> resp = \<lparr>status = 200, body = NoBody\<rparr> \<and> w' = w) \<or>
     (http_method req \<noteq> ''OPTIONS'' \<and>
        (\<exists>res. handler_body ty req e w = (res, w') \<and> resp = respond res))"
  by (auto simp: handler_def split: if_splits prod.splits)

lemma handler_body_inv:
  "handler_body ty req e w = (res, w') \<Longrightarrow>
     ((\<exists>x. res = Inl x) \<and> (w' = w \<or> w' = w\<lparr>trace := trace w @ [AuthGetUser]\<rparr>) \<and>
        (\<not> truthy (authorization req) \<or> getUser e = None \<or> (\<exists>x. json req = Inl x) \<or>
         (\<exists>b. json req = Inr b \<and> \<not> truthy (message b)) \<or> \<not> truthy (OPENAI_API_KEY e))) \<or>
     (\<exists>uid b m. truthy (authorization req) \<and> getUser e = Some uid \<and> json req = Inr b \<and>
          message b = Some m \<and> m \<noteq> [] \<and> truthy (OPENAI_API_KEY e) \<and>
          (\<exists>rr w1. resolve_conversation ty e uid (conversationId b)
                      (w\<lparr>trace := trace w @ [AuthGetUser]\<rparr>) = (rr, w1) \<and>
             ((\<exists>x. rr = Inl x \<and> res = Inl x \<and> w' = w1) \<or>
              (\<exists>t c. rr = Inr (t, c) \<and>
                   send_turn ty e uid m (userContext b) t c w1 = (res, w')))))"
  by (auto simp: handler_body_def step_defs truthy_iff
           split: if_splits option.splits sum.splits prod.splits)

lemma resolve_inv:
  "resolve_conversation ty e uid co w = (rr, w1) \<Longrightarrow>
     (\<exists>sel. sel = (if truthy co then [SelectConversation (the co) uid] else []) \<and>
     ((truthy co \<and> (\<exists>x. selectConversationError e = Some x \<and> rr = Inl x) \<and>
        w1 = w\<lparr>trace := trace w @ sel\<rparr>) \<or>
      (truthy co \<and> selectConversationError e = None \<and>
        (\<exists>row. conversations w (the co) = Some row \<and> user_id row = uid \<and>
              rr = Inr (thread_id row, the co)) \<and>
        w1 = w\<lparr>trace := trace w @ sel\<rparr>) \<or>
      ((truthy co \<longrightarrow> selectConversationError e = None \<and>
           (\<forall>row. conversations w (the co) = Some row \<longrightarrow> user_id row \<noteq> uid)) \<and>
       (((\<exists>x. rr = Inl x) \<and> (\<forall>t. createThreadResponse e \<noteq> Ok t) \<and>
           (createThreadResponse e = NotOk \<longrightarrow>
              rr = Inl (JsError ''Failed to create OpenAI thread'')) \<and>
           (\<forall>y. createThreadResponse e = Rejected y \<longrightarrow> rr = Inl y) \<and>
           w1 = w\<lparr>trace := trace w @ sel @ [CreateThread]\<rparr>) \<or>
        (\<exists>t. createThreadResponse e = Ok t \<and> (\<exists>x. rr = Inl x) \<and>
           (insertConversationError e \<noteq> None \<or>
            generatedConversationId e \<in> dom (conversations w)) \<and>
           (\<forall>y. insertConversationError e = Some y \<longrightarrow> rr = Inl y) \<and>
           w1 = w\<lparr>trace := trace w @ sel @ [CreateThread, InsertConversation uid ty t]\<rparr>) \<or>
        (\<exists>t. createThreadResponse e = Ok t \<and> insertConversationError e = None \<and>
           generatedConversationId e \<notin> dom (conversations w) \<and>
           rr = Inr (t, generatedConversationId e) \<and>
           w1 = w\<lparr>conversations := (conversations w)(generatedConversationId e \<mapsto>
                     \<lparr>user_id = uid, conv_assistant_type = ty, thread_id = t\<rparr>),
                  trace := trace w @ sel @ [CreateThread, InsertConversation uid ty t]\<rparr>)))))"
  by (auto simp: resolve_conversation_def create_thread_and_conversation_def
        insert_conversation_def select_conversation_def step_defs
      split: if_splits option.splits sum.splits prod.splits fetch_result.splits)

lemma send_turn_inv:
  "send_turn ty e uid m uc t c w = (res, w') \<Longrightarrow>
     ((\<exists>x. insertUserMessageError e = Some x \<and> res = Inl x) \<and>
        w' = w\<lparr>trace := trace w @ [InsertMessage c user m]\<rparr>) \<or>
     (insertUserMessageError e = None \<and>
       (\<exists>w2. w2 = w\<lparr>messages := messages w @
                      [\<lparr>conversation_id = c, msg_role = user, content = m\<rparr>],
                    trace := trace w @ [InsertMessage c user m,
                      AppendMessage t (build_message_content ty m uc)]\<rparr> \<and>
          (((\<exists>x. res = Inl x) \<and> addMessageResponse e \<noteq> Ok () \<and>
              (addMessageResponse e = NotOk \<longrightarrow>
                 res = Inl (JsError ''Failed to add message to thread'')) \<and>
              (\<forall>y. addMessageResponse e = Rejected y \<longrightarrow> res = Inl y) \<and> w' = w2) \<or>
           (addMessageResponse e = Ok () \<and> run_assistant ty e t c w2 = (res, w')))))"
  by (auto simp: send_turn_def insert_message_def step_defs
      split: if_splits option.splits sum.splits prod.splits fetch_result.splits)

lemma retrieve_reply_inv:
  "retrieve_reply e t c w = (res, w') \<Longrightarrow>
     ((\<exists>x. res = Inl x) \<and>
        (\<forall>data reply. messagesResponse e = Ok data \<longrightarrow> extract_reply data \<noteq> Inr reply) \<and>
        (messagesResponse e = NotOk \<longrightarrow> res = Inl (JsError ''Failed to retrieve messages'')) \<and>
        (\<forall>y. messagesResponse e = Rejected y \<longrightarrow> res = Inl y) \<and>
        (\<forall>data y. messagesResponse e = Ok data \<and> extract_reply data = Inl y \<longrightarrow> res = Inl y) \<and>
        w' = w\<lparr>trace := trace w @ [ListMessages t]\<rparr>) \<or>
     (\<exists>data reply. messagesResponse e = Ok data \<and> extract_reply data = Inr reply \<and>
        (((\<exists>x. insertAssistantMessageError e = Some x \<and> res = Inl x) \<and>
           w' = w\<lparr>trace := trace w @ [ListMessages t, InsertMessage c assistant reply]\<rparr>) \<or>
         (insertAssistantMessageError e = None \<and> res = Inr (ChatResponse reply c t) \<and>
           w' = w\<lparr>messages := messages w @
                     [\<lparr>conversation_id = c, msg_role = assistant, content = reply\<rparr>],
                  trace := trace w @ [ListMessages t, InsertMessage c assistant reply]\<rparr>)))"
  by (auto simp: retrieve_reply_def insert_message_def step_defs
      split: if_splits option.splits sum.splits prod.splits fetch_result.splits)

lemma run_assistant_inv:
  "run_assistant ty e t c w = (res, w') \<Longrightarrow>
     (\<not> truthy (assistant_id_env ty e) \<and> res = Inl (JsError (assistant_id_missing ty)) \<and> w' = w) \<or>
     (truthy (assistant_id_env ty e) \<and>
       (\<exists>w1. w1 = w\<lparr>trace := trace w @ [CreateRun t (the (assistant_id_env ty e))]\<rparr> \<and>
         (((\<exists>x. res = Inl x) \<and> (\<forall>r. runResponse e \<noteq> Ok r) \<and>
            (runResponse e = NotOk \<longrightarrow> res = Inl (JsError ''Failed to run assistant'')) \<and>
            (\<forall>y. runResponse e = Rejected y \<longrightarrow> res = Inl y) \<and> w' = w1) \<or>
          (\<exists>r pr w2. runResponse e = Ok r \<and>
             poll_loop e t (run_id r) (run_status r) 0 w1 = (pr, w2) \<and>
             ((\<exists>x. pr = Inl x \<and> res = Inl x \<and> w' = w2) \<or>
              (\<exists>s. pr = Inr s \<and> s \<noteq> ''completed'' \<and>
                   res = Inl (JsError ''Assistant run timed out'') \<and> w' = w2) \<or>
              (pr = Inr ''completed'' \<and> retrieve_reply e t c w2 = (res, w')))))))"
  by (auto simp: run_assistant_def step_defs
      split: if_splits option.splits sum.splits prod.splits fetch_result.splits)

section \<open>The run, from its creation onwards\<close>

lemma polls_Nil [simp]: "polls [] = 0"
  by (simp add: polls_def)

lemma polls_Cons [simp]: "polls (x # xs) = (if is_poll x then 1 else 0) + polls xs"
  by (simp add: polls_def)

lemma set_poll_events: "set (poll_events t r n) \<subseteq> {Sleep 1000, GetRun t r}"
  by (induction n) (auto simp: poll_events_Suc)

lemma run_event_poll_events: "ev \<in> set (poll_events t r n) \<Longrightarrow> run_event t c ev"
  using set_poll_events [of t r n] by auto

lemma poll_loop_timeout:
  assumes "poll_loop e t r s 0 w = (pr, w2)" "s \<noteq> ''completed''"
    "\<forall>k<maxAttempts. \<exists>st. statusResponse e k = Ok st \<and> st \<noteq> ''completed'' \<and> \<not> terminal_failure st"
  shows "(\<exists>s'. pr = Inr s' \<and> s' \<noteq> ''completed'') \<and>
         w2 = w\<lparr>trace := trace w @ poll_events t r maxAttempts\<rparr>"
proof -
  from poll_loop_never_terminal [of s 0 e t r w] assms(2,3)
  obtain s' where s': "s' \<noteq> ''completed''" "fst (poll_loop e t r s 0 w) = Inr s'" by auto
  with assms(1) have pr: "pr = Inr s'" by simp
  with assms(1) poll_loop_result [of e t r s 0 w s' w2] s'(1)
  have "w2 = w\<lparr>trace := trace w @ poll_events t r maxAttempts\<rparr>" by simp
  with pr s'(1) show ?thesis by simp
qed

lemma run_assistant_frame:
  assumes "run_assistant ty e t c w = (res, w')"
  shows "conversations w' = conversations w \<and>
     (\<exists>evs. trace w' = trace w @ evs \<and> (\<forall>ev\<in>set evs. run_event t c ev) \<and> polls evs \<le> maxAttempts) \<and>
     (messages w' = messages w \<or>
      (\<exists>reply. messages w' = messages w @
           [\<lparr>conversation_id = c, msg_role = assistant, content = reply\<rparr>] \<and>
         res = Inr (ChatResponse reply c t)))"
  using assms
  by (auto dest!: run_assistant_inv retrieve_reply_inv poll_loop_shape
            dest: run_event_poll_events)

lemma run_assistant_timeout:
  assumes "run_assistant ty e t c w = (res, w')" "truthy (assistant_id_env ty e)"
    "runResponse e = Ok r" "run_status r \<noteq> ''completed''"
    "\<forall>k<maxAttempts. \<exists>st. statusResponse e k = Ok st \<and> st \<noteq> ''completed'' \<and> \<not> terminal_failure st"
  shows "res = Inl (JsError ''Assistant run timed out'') \<and>
     w' = w\<lparr>trace := trace w @ [CreateRun t (the (assistant_id_env ty e))] @
                poll_events t (run_id r) maxAttempts\<rparr>"
  using assms
  by (auto dest!: run_assistant_inv dest: poll_loop_timeout)

lemma run_assistant_terminal:
  assumes "run_assistant ty e t c w = (res, w')" "k < polls (trace w') - polls (trace w)"
    "statusResponse e k = Ok st" "terminal_failure st"
  shows "polls (trace w') = polls (trace w) + k + 1 \<and>
     res = Inl (JsError (''Assistant run '' @ st)) \<and>
     (\<exists>pre r. trace w' = pre @ [Sleep 1000, GetRun t r])"
proof -
  from run_assistant_inv [OF assms(1)] assms(2)
  obtain r pr w2 where a: "truthy (assistant_id_env ty e)" "runResponse e = Ok r"
    and pl: "poll_loop e t (run_id r) (run_status r) 0
       (w\<lparr>trace := trace w @ [CreateRun t (the (assistant_id_env ty e))]\<rparr>) = (pr, w2)"
    and fin: "(\<exists>x. pr = Inl x \<and> res = Inl x \<and> w' = w2) \<or>
              (\<exists>s. pr = Inr s \<and> s \<noteq> ''completed'' \<and>
                   res = Inl (JsError ''Assistant run timed out'') \<and> w' = w2) \<or>
              (pr = Inr ''completed'' \<and> retrieve_reply e t c w2 = (res, w'))"
    by auto
  let ?w1 = "w\<lparr>trace := trace w @ [CreateRun t (the (assistant_id_env ty e))]\<rparr>"
  from fin have "polls (trace w') = polls (trace w2)"
    by (auto dest!: retrieve_reply_inv)
  with assms(2) have "k - 0 < polls (trace w2) - polls (trace ?w1)" by simp
  from poll_loop_terminal [OF pl _ this assms(3,4)]
  have t: "polls (trace w2) = polls (trace ?w1) + (k - 0) + 1"
    "pr = Inl (JsError (''Assistant run '' @ st))"
    "\<exists>pre. trace w2 = pre @ [Sleep 1000, GetRun t (run_id r)]" by auto
  with fin have "res = Inl (JsError (''Assistant run '' @ st))" "w' = w2" by auto
  with t show ?thesis by auto
qed

section \<open>The outcomes of a turn\<close>

lemma handler_cases [consumes 1, case_names options rejected unresolved reused created]:
  assumes "handler ty req e (new_world cs ms) = (resp, w')"
  obtains
    (options) "http_method req = ''OPTIONS''" "resp = \<lparr>status = 200, body = NoBody\<rparr>"
      "w' = new_world cs ms"
  | (rejected) x where "http_method req \<noteq> ''OPTIONS''" "resp = respond (Inl x)"
      "conversations w' = cs" "messages w' = ms" "trace w' = [] \<or> trace w' = [AuthGetUser]"
      "\<not> truthy (authorization req) \<or> getUser e = None \<or> (\<exists>x. json req = Inl x) \<or>
       (\<exists>b. json req = Inr b \<and> \<not> truthy (message b)) \<or> \<not> truthy (OPENAI_API_KEY e)"
  | (unresolved) x uid b m tl where "http_method req \<noteq> ''OPTIONS''"
      "truthy (authorization req)" "getUser e = Some uid" "json req = Inr b"
      "message b = Some m" "m \<noteq> []" "truthy (OPENAI_API_KEY e)"
      "resp = respond (Inl x)" "conversations w' = cs" "messages w' = ms"
      "trace w' = AuthGetUser # select_events uid (conversationId b) @ tl"
      "(tl = [] \<and> truthy (conversationId b) \<and> selectConversationError e \<noteq> None) \<or>
       (tl = [CreateThread] \<and> (\<forall>t. createThreadResponse e \<noteq> Ok t)) \<or>
       (\<exists>t. createThreadResponse e = Ok t \<and> tl = [CreateThread, InsertConversation uid ty t] \<and>
          (insertConversationError e \<noteq> None \<or> generatedConversationId e \<in> dom cs))"
      "(tl = [] \<longrightarrow> selectConversationError e = Some x) \<and>
       (tl \<noteq> [] \<and> truthy (conversationId b) \<longrightarrow> selectConversationError e = None) \<and>
       (tl = [CreateThread] \<and> createThreadResponse e = NotOk \<longrightarrow>
          x = JsError ''Failed to create OpenAI thread'') \<and>
       (\<forall>y. tl = [CreateThread] \<and> createThreadResponse e = Rejected y \<longrightarrow> x = y) \<and>
       (\<forall>y. tl \<noteq> [] \<and> tl \<noteq> [CreateThread] \<and> insertConversationError e = Some y \<longrightarrow> x = y)"
  | (reused) uid b m row res where "http_method req \<noteq> ''OPTIONS''"
      "truthy (authorization req)" "getUser e = Some uid" "json req = Inr b"
      "message b = Some m" "m \<noteq> []" "truthy (OPENAI_API_KEY e)"
      "truthy (conversationId b)" "selectConversationError e = None"
      "cs (the (conversationId b)) = Some row" "user_id row = uid"
      "send_turn ty e uid m (userContext b) (thread_id row) (the (conversationId b))
         \<lparr>conversations = cs, messages = ms,
          trace = [AuthGetUser, SelectConversation (the (conversationId b)) uid]\<rparr> = (res, w')"
      "resp = respond res"
  | (created) uid b m t res where "http_method req \<noteq> ''OPTIONS''"
      "truthy (authorization req)" "getUser e = Some uid" "json req = Inr b"
      "message b = Some m" "m \<noteq> []" "truthy (OPENAI_API_KEY e)"
      "truthy (conversationId b) \<longrightarrow> selectConversationError e = None \<and>
         (\<forall>row. cs (the (conversationId b)) = Some row \<longrightarrow> user_id row \<noteq> uid)"
      "createThreadResponse e = Ok t" "insertConversationError e = None"
      "generatedConversationId e \<notin> dom cs"
      "send_turn ty e uid m (userContext b) t (generatedConversationId e)
         \<lparr>conversations = cs(generatedConversationId e \<mapsto>
            \<lparr>user_id = uid, conv_assistant_type = ty, thread_id = t\<rparr>),
          messages = ms,
          trace = AuthGetUser # select_events uid (conversationId b) @
            [CreateThread, InsertConversation uid ty t]\<rparr> = (res, w')"
      "resp = respond res"
proof -
  from handler_inv [OF assms]
  consider (o) "http_method req = ''OPTIONS''" "resp = \<lparr>status = 200, body = NoBody\<rparr>"
      "w' = new_world cs ms"
    | (b) res where "http_method req \<noteq> ''OPTIONS''"
      "handler_body ty req e (new_world cs ms) = (res, w')" "resp = respond res"
    by auto
  then show thesis
  proof cases
    case o
    then show ?thesis by (rule options)
  next
    case b
    from handler_body_inv [OF b(2)]
    consider (early) x where "res = Inl x"
        "w' = new_world cs ms \<or> w' = (new_world cs ms)\<lparr>trace := [AuthGetUser]\<rparr>"
        "\<not> truthy (authorization req) \<or> getUser e = None \<or> (\<exists>x. json req = Inl x) \<or>
         (\<exists>b. json req = Inr b \<and> \<not> truthy (message b)) \<or> \<not> truthy (OPENAI_API_KEY e)"
      | (turn) uid bb m rr w1 where "truthy (authorization req)" "getUser e = Some uid"
        "json req = Inr bb" "message bb = Some m" "m \<noteq> []" "truthy (OPENAI_API_KEY e)"
        "resolve_conversation ty e uid (conversationId bb)
           \<lparr>conversations = cs, messages = ms, trace = [AuthGetUser]\<rparr> = (rr, w1)"
        "(\<exists>x. rr = Inl x \<and> res = Inl x \<and> w' = w1) \<or>
         (\<exists>t c. rr = Inr (t, c) \<and> send_turn ty e uid m (userContext bb) t c w1 = (res, w'))"
      by (auto simp: new_world_def)
    then show ?thesis
    proof cases
      case early
      with b show ?thesis by (intro rejected [of x]) (auto simp: new_world_def)
    next
      case turn
      note v = b(1) turn(1-6)
      from resolve_inv [OF turn(7)] turn(8)
      consider (fail) x tl where "res = Inl x" "w' = w1" "conversations w1 = cs"
          "messages w1 = ms" "trace w1 = AuthGetUser # select_events uid (conversationId bb) @ tl"
          "(tl = [] \<and> truthy (conversationId bb) \<and> selectConversationError e \<noteq> None) \<or>
           (tl = [CreateThread] \<and> (\<forall>t. createThreadResponse e \<noteq> Ok t)) \<or>
           (\<exists>t. createThreadResponse e = Ok t \<and>
              tl = [CreateThread, InsertConversation uid ty t] \<and>
              (insertConversationError e \<noteq> None \<or> generatedConversationId e \<in> dom cs))"
          "(tl = [] \<longrightarrow> selectConversationError e = Some x) \<and>
           (tl \<noteq> [] \<and> truthy (conversationId bb) \<longrightarrow> selectConversationError e = None) \<and>
           (tl = [CreateThread] \<and> createThreadResponse e = NotOk \<longrightarrow>
              x = JsError ''Failed to create OpenAI thread'') \<and>
           (\<forall>y. tl = [CreateThread] \<and> createThreadResponse e = Rejected y \<longrightarrow> x = y) \<and>
           (\<forall>y. tl \<noteq> [] \<and> tl \<noteq> [CreateThread] \<and> insertConversationError e = Some y \<longrightarrow> x = y)"
        | (found) row where "truthy (conversationId bb)" "selectConversationError e = None"
          "cs (the (conversationId bb)) = Some row" "user_id row = uid"
          "send_turn ty e uid m (userContext bb) (thread_id row) (the (conversationId bb))
             \<lparr>conversations = cs, messages = ms,
              trace = [AuthGetUser, SelectConversation (the (conversationId bb)) uid]\<rparr> = (res, w')"
        | (new) t where "truthy (conversationId bb) \<longrightarrow> selectConversationError e = None \<and>
             (\<forall>row. cs (the (conversationId bb)) = Some row \<longrightarrow> user_id row \<noteq> uid)"
          "createThreadResponse e = Ok t" "insertConversationError e = None"
          "generatedConversationId e \<notin> dom cs"
          "send_turn ty e uid m (userContext bb) t (generatedConversationId e)
             \<lparr>conversations = cs(generatedConversationId e \<mapsto>
                \<lparr>user_id = uid, conv_assistant_type = ty, thread_id = t\<rparr>),
              messages = ms,
              trace = AuthGetUser # select_events uid (conversationId bb) @
                [CreateThread, InsertConversation uid ty t]\<rparr> = (res, w')"
        by (elim disjE conjE exE) (auto simp: select_events_def)
      then show ?thesis
      proof cases
        case fail
        with b(3) show ?thesis by (intro unresolved [OF v, of x tl]) simp_all
      next
        case found
        with b(3) show ?thesis by (intro reused [OF v]) simp_all
      next
        case new
        with b(3) show ?thesis by (intro created [OF v]) simp_all
      qed
    qed
  qed
qed

lemma prefix_event_polls: "\<forall>ev\<in>set tr. prefix_event ev \<Longrightarrow> polls tr = 0"
  by (induction tr) (auto elim: prefix_event.elims)

lemma send_turn_cases [consumes 1, case_names insert_failed append_failed appended]:
  assumes "send_turn ty e uid m uc t c w = (res, w')"
  obtains
    (insert_failed) x where "insertUserMessageError e = Some x" "res = Inl x"
      "w' = w\<lparr>trace := trace w @ [InsertMessage c user m]\<rparr>"
  | (append_failed) x where "insertUserMessageError e = None" "res = Inl x"
      "addMessageResponse e \<noteq> Ok ()"
      "addMessageResponse e = NotOk \<longrightarrow> x = JsError ''Failed to add message to thread''"
      "w' = w\<lparr>messages := messages w @
               [\<lparr>conversation_id = c, msg_role = user, content = m\<rparr>],
             trace := trace w @ [InsertMessage c user m,
               AppendMessage t (build_message_content ty m uc)]\<rparr>"
      "\<forall>y. addMessageResponse e = Rejected y \<longrightarrow> x = y"
  | (appended) "insertUserMessageError e = None" "addMessageResponse e = Ok ()"
      "run_assistant ty e t c
         (w\<lparr>messages := messages w @
               [\<lparr>conversation_id = c, msg_role = user, content = m\<rparr>],
             trace := trace w @ [InsertMessage c user m,
               AppendMessage t (build_message_content ty m uc)]\<rparr>) = (res, w')"
  using send_turn_inv [OF assms] by (elim disjE conjE exE) auto

lemma handler_run_cases [consumes 1, case_names no_run run]:
  assumes "handler ty req e (new_world cs ms) = (resp, w')"
  obtains
    (no_run) "\<forall>ev\<in>set (trace w'). prefix_event ev" "status resp = 500 \<or> body resp = NoBody"
  | (run) t c w1 res where "run_assistant ty e t c w1 = (res, w')"
      "\<forall>ev\<in>set (trace w1). prefix_event ev" "resp = respond res"
  using assms
proof (cases rule: handler_cases)
  case options
  then show ?thesis by (intro no_run) (simp_all add: new_world_def)
next
  case (rejected x)
  then show ?thesis by (intro no_run) auto
next
  case (unresolved x uid b m tl)
  then show ?thesis by (intro no_run) (auto simp: select_events_def)
next
  case (reused uid b m row res)
  from reused(12) show ?thesis
  proof (cases rule: send_turn_cases)
    case (insert_failed x)
    with reused(13) show ?thesis by (intro no_run) auto
  next
    case (append_failed x)
    with reused(13) show ?thesis by (intro no_run) auto
  next
    case appended
    from appended(3) _ reused(13) show ?thesis by (rule run) simp
  qed
next
  case (created uid b m t res)
  from created(12) show ?thesis
  proof (cases rule: send_turn_cases)
    case (insert_failed x)
    with created(13) show ?thesis by (intro no_run) (auto simp: select_events_def)
  next
    case (append_failed x)
    with created(13) show ?thesis by (intro no_run) (auto simp: select_events_def)
  next
    case appended
    from appended(3) _ created(13) show ?thesis by (rule run) (simp add: select_events_def)
  qed
qed

lemma run_assistant_success:
  "run_assistant ty e t c w = (Inr d, w') \<Longrightarrow> \<exists>reply. d = ChatResponse reply c t"
  by (auto dest!: run_assistant_inv retrieve_reply_inv)

section \<open>The bounded poll loop\<close>

lemma stuck_run:
  "handler excursion_creator beach_request stuck_env (new_world Map.empty []) =
     (\<lparr>status = 500, body = ErrorBody ''Assistant run timed out''\<rparr>, stuck_world)"
  by (simp add: handler_def handler_body_def send_turn_def run_assistant_def
        resolve_conversation_def create_thread_and_conversation_def insert_conversation_def
        insert_message_def step_defs new_world_def poll_loop.simps maxAttempts_def
        terminal_failure_def excursion_message_content_def contextInfo_def length_truthy_def
        beach_request_def beach_body_def beach_context_def stuck_env_def good_env_def
        stuck_world_def beach_prefix_def beach_content_def beach_conversations_def
        beach_user_row_def poll_events_def eval_nat_numeral)

lemma expiring_run:
  "handler excursion_creator beach_request expiring_env (new_world Map.empty []) =
     (\<lparr>status = 500, body = ErrorBody ''Assistant run expired''\<rparr>, expired_world)"
  by (simp add: handler_def handler_body_def send_turn_def run_assistant_def
        resolve_conversation_def create_thread_and_conversation_def insert_conversation_def
        insert_message_def step_defs new_world_def poll_loop.simps maxAttempts_def
        terminal_failure_def excursion_message_content_def contextInfo_def length_truthy_def
        beach_request_def beach_body_def beach_context_def expiring_env_def good_env_def
        expired_world_def beach_prefix_def beach_content_def beach_conversations_def
        beach_user_row_def poll_events_def eval_nat_numeral)

text \<open>
  Claim C1. No turn issues more than 30 status polls, whatever the remote service
  answers, and the loop is a total function: it always returns. When the run has been
  created, its status is not \<^verbatim>\<open>completed\<close> and every poll answers successfully with a
  status that is none of \<^verbatim>\<open>completed\<close>, \<^verbatim>\<open>failed\<close>, \<^verbatim>\<open>cancelled\<close>, \<^verbatim>\<open>expired\<close>, the turn
  issues exactly 30 polls, each after a wait of 1000 ms, nothing after them, and the
  response is status 500 with the text "Assistant run timed out".
\<close>

theorem poll_loop_times_out_after_30:
  assumes "handler ty req e (new_world cs ms) = (resp, w')"
  shows "polls (trace w') \<le> 30 \<and>
     ((\<exists>t a. CreateRun t a \<in> set (trace w')) \<and>
      (\<exists>r. runResponse e = Ok r \<and> run_status r \<noteq> ''completed'') \<and>
      (\<forall>k<30. \<exists>st. statusResponse e k = Ok st \<and> st \<noteq> ''completed'' \<and> \<not> terminal_failure st) \<longrightarrow>
        resp = \<lparr>status = 500, body = ErrorBody ''Assistant run timed out''\<rparr> \<and>
        polls (trace w') = 30 \<and>
        (\<exists>pre t a r. runResponse e = Ok r \<and>
           trace w' = pre @ [CreateRun t a] @ poll_events t (run_id r) 30))"
  using assms
proof (cases rule: handler_run_cases)
  case no_run
  then show ?thesis by (auto simp: prefix_event_polls)
next
  case (run t c w1 res)
  from run_assistant_frame [OF run(1)] obtain evs where
    evs: "trace w' = trace w1 @ evs" "polls evs \<le> maxAttempts" by blast
  with run(2) have bound: "polls (trace w') \<le> 30"
    by (simp add: prefix_event_polls maxAttempts_def)
  have "resp = \<lparr>status = 500, body = ErrorBody ''Assistant run timed out''\<rparr> \<and>
        polls (trace w') = 30 \<and>
        (\<exists>pre t a. trace w' = pre @ [CreateRun t a] @ poll_events t (run_id r) 30)"
    if h: "CreateRun t' a \<in> set (trace w')" "runResponse e = Ok r" "run_status r \<noteq> ''completed''"
      "\<forall>k<30. \<exists>st. statusResponse e k = Ok st \<and> st \<noteq> ''completed'' \<and> \<not> terminal_failure st"
    for t' a r
  proof -
    have tr: "truthy (assistant_id_env ty e)"
    proof (rule ccontr)
      assume "\<not> truthy (assistant_id_env ty e)"
      with run_assistant_inv [OF run(1)] have "w' = w1" by auto
      with run(2) h(1) show False by auto
    qed
    from run_assistant_timeout [OF run(1) tr h(2,3)] h(4)
    have "res = Inl (JsError ''Assistant run timed out'')"
      "w' = w1\<lparr>trace := trace w1 @ [CreateRun t (the (assistant_id_env ty e))] @
                poll_events t (run_id r) maxAttempts\<rparr>"
      by (simp_all add: maxAttempts_def)
    with run(2,3) show ?thesis
      by (auto simp: maxAttempts_def prefix_event_polls)
  qed
  with bound show ?thesis by blast
qed

text \<open>
  Claim C2. If the poll with index \<open>k\<close> is issued and answers \<^verbatim>\<open>failed\<close>, \<^verbatim>\<open>cancelled\<close> or
  \<^verbatim>\<open>expired\<close>, it is the last poll and the last call of the turn, and the response is
  status 500 with the text "Assistant run " followed by that status.
\<close>

theorem terminal_status_stops_polling:
  assumes "handler ty req e (new_world cs ms) = (resp, w')"
    and "k < polls (trace w')" "statusResponse e k = Ok st" "terminal_failure st"
  shows "polls (trace w') = k + 1 \<and>
     (\<exists>pre t r. trace w' = pre @ [Sleep 1000, GetRun t r]) \<and>
     resp = \<lparr>status = 500, body = ErrorBody (''Assistant run '' @ st)\<rparr>"
  using assms(1)
proof (cases rule: handler_run_cases)
  case no_run
  with assms(2) show ?thesis by (simp add: prefix_event_polls)
next
  case (run t c w1 res)
  from run(2) have p0: "polls (trace w1) = 0" by (rule prefix_event_polls)
  with assms(2) have "k < polls (trace w') - polls (trace w1)" by simp
  from run_assistant_terminal [OF run(1) this assms(3,4)] p0 run(3)
  show ?thesis by auto
qed

theorem poll_loop_times_out_after_30_witness:
  "handler excursion_creator beach_request stuck_env (new_world Map.empty []) =
     (\<lparr>status = 500, body = ErrorBody ''Assistant run timed out''\<rparr>, stuck_world) \<and>
   CreateRun ''t9'' ''asst_x'' \<in> set (trace stuck_world) \<and>
   runResponse stuck_env = Ok \<lparr>run_id = ''r1'', run_status = ''queued''\<rparr> \<and>
   (\<forall>k. statusResponse stuck_env k = Ok ''in_progress'') \<and>
   polls (trace stuck_world) = 30 \<and>
   (\<exists>pre. trace stuck_world = pre @ [CreateRun ''t9'' ''asst_x''] @ poll_events ''t9'' ''r1'' 30)"
proof -
  have a: "CreateRun ''t9'' ''asst_x'' \<in> set (trace stuck_world)"
    by (simp add: stuck_world_def)
  have b: "runResponse stuck_env = Ok \<lparr>run_id = ''r1'', run_status = ''queued''\<rparr>"
    by (simp add: stuck_env_def good_env_def)
  have c: "\<forall>k. statusResponse stuck_env k = Ok ''in_progress''"
    by (simp add: stuck_env_def good_env_def)
  have d: "\<forall>k<30. \<exists>st. statusResponse stuck_env k = Ok st \<and> st \<noteq> ''completed'' \<and>
             \<not> terminal_failure st"
    by (simp add: c terminal_failure_def)
  from poll_loop_times_out_after_30 [OF stuck_run] a b d
  have "polls (trace stuck_world) = 30" by auto
  moreover have "\<exists>pre. trace stuck_world =
      pre @ [CreateRun ''t9'' ''asst_x''] @ poll_events ''t9'' ''r1'' 30"
    by (simp add: stuck_world_def)
  ultimately show ?thesis using stuck_run a b c by simp
qed

theorem terminal_status_stops_polling_witness:
  "handler excursion_creator beach_request expiring_env (new_world Map.empty []) =
     (\<lparr>status = 500, body = ErrorBody ''Assistant run expired''\<rparr>, expired_world) \<and>
   2 < polls (trace expired_world) \<and>
   statusResponse expiring_env 2 = Ok ''expired'' \<and> terminal_failure ''expired'' \<and>
   polls (trace expired_world) = 2 + 1 \<and>
   (\<exists>pre t r. trace expired_world = pre @ [Sleep 1000, GetRun t r])"
proof -
  have a: "2 < polls (trace expired_world)"
    by (simp add: expired_world_def beach_prefix_def)
  have b: "statusResponse expiring_env 2 = Ok ''expired''"
    by (simp add: expiring_env_def good_env_def)
  have c: "terminal_failure ''expired''"
    by (simp add: terminal_failure_def)
  from terminal_status_stops_polling [OF expiring_run a b c] expiring_run a b c
  show ?thesis by simp
qed

lemma CreateRun_notin_poll_events [simp]: "CreateRun x y \<notin> set (poll_events t r n)"
  using set_poll_events [of t r n] by auto

section \<open>Sample runs\<close>

lemmas handler_defs = handler_def handler_body_def send_turn_def run_assistant_def
  retrieve_reply_def extract_reply_def resolve_conversation_def
  create_thread_and_conversation_def insert_conversation_def select_conversation_def
  insert_message_def step_defs new_world_def poll_loop.simps maxAttempts_def
  terminal_failure_def excursion_message_content_def contextInfo_def length_truthy_def
  poll_events_def eval_nat_numeral

lemmas sample_defs = beach_request_def beach_body_def beach_context_def good_env_def
  pier_reply_def beach_prefix_def beach_content_def beach_conversations_def
  beach_user_row_def beach_assistant_row_def reply_events_def pier_response_def

lemma good_run:
  "handler excursion_creator beach_request good_env (new_world Map.empty []) =
     (pier_response, good_world)"
  by (simp add: handler_defs sample_defs good_world_def)

lemma coach_run:
  "handler health_coach beach_request good_env (new_world Map.empty []) =
     (pier_response, coach_world)"
  by (simp add: handler_defs sample_defs coach_world_def)

lemma append_failed_run:
  "handler excursion_creator beach_request append_down_env (new_world Map.empty []) =
     (\<lparr>status = 500, body = ErrorBody ''Failed to add message to thread''\<rparr>,
      append_failed_world)"
  by (simp add: handler_defs sample_defs append_down_env_def append_failed_world_def)

lemma store_failed_run:
  "handler excursion_creator beach_request store_down_env (new_world Map.empty []) =
     (\<lparr>status = 500, body = ErrorBody ''An unknown error occurred''\<rparr>, store_failed_world)"
  by (simp add: handler_defs sample_defs store_down_env_def store_failed_world_def)

lemma unauthorised_run:
  "handler excursion_creator unauthorised_request good_env (new_world Map.empty []) =
     (\<lparr>status = 500, body = ErrorBody ''No authorization header''\<rparr>, new_world Map.empty [])"
  by (simp add: handler_defs sample_defs unauthorised_request_def)

lemma foreign_run:
  "handler excursion_creator foreign_request good_env (new_world foreign_conversations []) =
     (pier_response, foreign_world)"
  by (simp add: handler_defs sample_defs foreign_request_def foreign_body_def
        foreign_conversations_def other_row_def foreign_world_def)

lemma cancelled_run:
  "handler excursion_creator beach_request failed_then_cancelled_env (new_world Map.empty []) =
     (\<lparr>status = 500, body = ErrorBody ''Assistant run cancelled''\<rparr>, cancelled_world)"
  by (simp add: handler_defs sample_defs failed_then_cancelled_env_def failed_run_def
        cancelled_world_def)

lemma recovered_run:
  "handler excursion_creator beach_request failed_then_completed_env (new_world Map.empty []) =
     (pier_response, recovered_world)"
  by (simp add: handler_defs sample_defs failed_then_completed_env_def failed_run_def
        recovered_world_def)

lemma immediate_run:
  "handler excursion_creator beach_request completed_at_once_env (new_world Map.empty []) =
     (pier_response, immediate_world)"
  by (simp add: handler_defs sample_defs completed_at_once_env_def completed_run_def
        immediate_world_def)

lemma blank_run:
  "handler excursion_creator blank_request good_env (new_world Map.empty []) =
     (\<lparr>status = 500, body = ErrorBody ''Message is required''\<rparr>, auth_only_world)"
  by (simp add: handler_defs sample_defs blank_request_def blank_body_def auth_only_world_def)

lemma no_assistant_run:
  "handler excursion_creator beach_request no_assistant_env (new_world Map.empty []) =
     (\<lparr>status = 500, body = ErrorBody ''Excursion Creator Assistant ID not configured''\<rparr>,
      append_failed_world)"
  by (simp add: handler_defs sample_defs no_assistant_env_def append_failed_world_def)

section \<open>A failed append\<close>

text \<open>
  Claim C3. If the append-message call is issued and the remote service answers with a
  non-success response, then the insert of the user message is the call just before it
  and nothing follows; the store holds that user message (the original text, for a
  conversation owned by the caller and bound to the thread used) and no assistant
  message; the response is status 500 with the text "Failed to add message to thread".
\<close>

theorem append_failure_keeps_user_message:
  assumes "handler ty req e (new_world cs ms) = (resp, w')"
    "AppendMessage t c \<in> set (trace w')" "addMessageResponse e = NotOk"
  shows "resp = \<lparr>status = 500, body = ErrorBody ''Failed to add message to thread''\<rparr> \<and>
  (\<exists>pre cid m b. trace w' = pre @ [InsertMessage cid user m, AppendMessage t c] \<and>
     json req = Inr b \<and> message b = Some m \<and>
     messages w' = ms @ [\<lparr>conversation_id = cid, msg_role = user, content = m\<rparr>] \<and>
     (\<exists>row. conversations w' cid = Some row \<and> thread_id row = t \<and> getUser e = Some (user_id row)))"
  using assms(1)
proof (cases rule: handler_cases)
  case options
  with assms(2) show ?thesis by (simp add: new_world_def)
next
  case (rejected x)
  with assms(2) show ?thesis by auto
next
  case (unresolved x uid b m tl)
  with assms(2) show ?thesis by (auto simp: select_events_def)
next
  case (reused uid b m row res)
  from reused(12) show ?thesis
  proof (cases rule: send_turn_cases)
    case (insert_failed x)
    with assms(2) show ?thesis by simp
  next
    case (append_failed x)
    with assms(2,3) reused show ?thesis by auto
  next
    case appended
    with assms(3) show ?thesis by simp
  qed
next
  case (created uid b m t' res)
  from created(12) show ?thesis
  proof (cases rule: send_turn_cases)
    case (insert_failed x)
    with assms(2) show ?thesis by (simp add: select_events_def)
  next
    case (append_failed x)
    with assms(2,3) created show ?thesis by (auto simp: select_events_def)
  next
    case appended
    with assms(3) show ?thesis by simp
  qed
qed

theorem append_failure_keeps_user_message_witness:
  "handler excursion_creator beach_request append_down_env (new_world Map.empty []) =
     (\<lparr>status = 500, body = ErrorBody ''Failed to add message to thread''\<rparr>,
      append_failed_world) \<and>
   AppendMessage ''t9'' beach_content \<in> set (trace append_failed_world) \<and>
   addMessageResponse append_down_env = NotOk \<and>
   messages append_failed_world = [beach_user_row] \<and>
   content beach_user_row = ''Plan a beach day'' \<and>
   (\<exists>pre. trace append_failed_world =
      pre @ [InsertMessage ''c9'' user ''Plan a beach day'', AppendMessage ''t9'' beach_content])"
proof -
  have a: "AppendMessage ''t9'' beach_content \<in> set (trace append_failed_world)"
    by (simp add: append_failed_world_def beach_prefix_def)
  have b: "addMessageResponse append_down_env = NotOk"
    by (simp add: append_down_env_def)
  from append_failure_keeps_user_message [OF append_failed_run a b] append_failed_run a b
  show ?thesis
    by (simp add: append_failed_world_def beach_prefix_def beach_user_row_def)
qed

section \<open>What is stored and what is sent\<close>

lemma run_frame_user:
  "\<forall>ev\<in>set evs. run_event t c ev \<Longrightarrow>
     InsertMessage cid user x \<notin> set evs \<and> AppendMessage t' y \<notin> set evs"
  by auto

lemma send_turn_messages:
  assumes "send_turn ty e uid m uc t c w = (res, w')"
    "\<forall>cid x. InsertMessage cid user x \<notin> set (trace w)"
    "\<forall>t' y. AppendMessage t' y \<notin> set (trace w)"
  shows "(\<exists>new. messages w' = messages w @ new \<and>
            (\<forall>row\<in>set new. msg_role row = user \<longrightarrow> content row = m)) \<and>
         (\<forall>cid x. InsertMessage cid user x \<in> set (trace w') \<longrightarrow> x = m) \<and>
         (\<forall>t' y. AppendMessage t' y \<in> set (trace w') \<longrightarrow>
            t' = t \<and> y = build_message_content ty m uc \<and>
            \<lparr>conversation_id = c, msg_role = user, content = m\<rparr> \<in> set (messages w') \<and>
            (\<exists>pre post. trace w' = pre @ [InsertMessage c user m, AppendMessage t y] @ post))"
  using assms(1)
proof (cases rule: send_turn_cases)
  case (insert_failed x)
  with assms(2,3) show ?thesis by simp
next
  case (append_failed x)
  with assms(2,3) show ?thesis by auto
next
  case appended
  let ?row = "\<lparr>conversation_id = c, msg_role = user, content = m\<rparr>"
  let ?y = "build_message_content ty m uc"
  from run_assistant_frame [OF appended(3)] obtain evs where
    tr: "trace w' = trace w @ [InsertMessage c user m, AppendMessage t ?y] @ evs"
    and evs: "\<forall>ev\<in>set evs. run_event t c ev"
    and msgs: "messages w' = messages w @ [?row] \<or>
      (\<exists>reply. messages w' = messages w @ [?row] @
          [\<lparr>conversation_id = c, msg_role = assistant, content = reply\<rparr>])"
    by auto
  from msgs have 1: "\<exists>new. messages w' = messages w @ new \<and>
            (\<forall>row\<in>set new. msg_role row = user \<longrightarrow> content row = m)"
    by auto
  from msgs have in_msgs: "?row \<in> set (messages w')" by auto
  from tr evs assms(2) run_frame_user [OF evs]
  have 2: "\<forall>cid x. InsertMessage cid user x \<in> set (trace w') \<longrightarrow> x = m" by auto
  have 3: "t' = t \<and> y = ?y \<and> ?row \<in> set (messages w') \<and>
            (\<exists>pre post. trace w' = pre @ [InsertMessage c user m, AppendMessage t y] @ post)"
    if "AppendMessage t' y \<in> set (trace w')" for t' y
  proof -
    from that tr assms(3) run_frame_user [OF evs] have "t' = t" "y = ?y" by auto
    with tr in_msgs show ?thesis by blast
  qed
  from 1 2 3 show ?thesis by blast
qed

lemma handler_messages:
  assumes "handler ty req e (new_world cs ms) = (resp, w')" "json req = Inr b"
  shows "(\<exists>new. messages w' = ms @ new \<and>
           (\<forall>row\<in>set new. msg_role row = user \<longrightarrow> message b = Some (content row))) \<and>
         (\<forall>cid c. InsertMessage cid user c \<in> set (trace w') \<longrightarrow> message b = Some c) \<and>
         (\<forall>t c. AppendMessage t c \<in> set (trace w') \<longrightarrow>
            (\<exists>m. message b = Some m \<and> c = build_message_content ty m (userContext b) \<and>
               (\<exists>cid. \<lparr>conversation_id = cid, msg_role = user, content = m\<rparr> \<in> set (messages w') \<and>
                  (\<exists>pre post. trace w' = pre @ [InsertMessage cid user m, AppendMessage t c] @ post))))"
  using assms(1)
proof (cases rule: handler_cases)
  case options
  then show ?thesis by (simp add: new_world_def)
next
  case (rejected x)
  then show ?thesis by auto
next
  case (unresolved x uid b m tl)
  then show ?thesis by (auto simp: select_events_def)
next
  case (reused uid b' m row res)
  from reused(4,5) assms(2) have b: "b' = b" "message b = Some m" by auto
  from send_turn_messages [OF reused(12)] b show ?thesis
    by simp blast
next
  case (created uid b' m t' res)
  from created(4,5) assms(2) have b: "b' = b" "message b = Some m" by auto
  from send_turn_messages [OF created(12)] b show ?thesis
    by (simp add: select_events_def) blast
qed

text \<open>
  Claim C4. At the excursion endpoint, for a request that carries a user context: every
  message row the turn adds with role \<^verbatim>\<open>user\<close> has the request's message as its content,
  exactly; so has every insert the turn issues for a user message. The text with the
  user-context annotation is what the append call to the remote thread carries.
\<close>

theorem user_message_stored_verbatim:
  assumes "handler excursion_creator req e (new_world cs ms) = (resp, w')"
    "json req = Inr b" "userContext b = Some uc"
  shows "(\<exists>new. messages w' = ms @ new \<and>
           (\<forall>row\<in>set new. msg_role row = user \<longrightarrow> message b = Some (content row))) \<and>
         (\<forall>cid c. InsertMessage cid user c \<in> set (trace w') \<longrightarrow> message b = Some c) \<and>
         (\<forall>t c. AppendMessage t c \<in> set (trace w') \<longrightarrow>
            (\<exists>m. message b = Some m \<and> c = excursion_message_content m (Some uc)))"
  using handler_messages [OF assms(1,2)] assms(3) by simp blast

theorem user_message_stored_verbatim_witness:
  "handler excursion_creator beach_request good_env (new_world Map.empty []) =
     (pier_response, good_world) \<and>
   json beach_request = Inr beach_body \<and> userContext beach_body = Some beach_context \<and>
   messages good_world = [] @ [beach_user_row, beach_assistant_row] \<and>
   msg_role beach_user_row = user \<and> message beach_body = Some (content beach_user_row) \<and>
   InsertMessage ''c9'' user ''Plan a beach day'' \<in> set (trace good_world) \<and>
   AppendMessage ''t9'' beach_content \<in> set (trace good_world) \<and>
   beach_content = excursion_message_content ''Plan a beach day'' (Some beach_context) \<and>
   beach_content \<noteq> content beach_user_row"
proof -
  have j: "json beach_request = Inr beach_body" by (simp add: beach_request_def)
  have u: "userContext beach_body = Some beach_context" by (simp add: beach_body_def)
  have a: "AppendMessage ''t9'' beach_content \<in> set (trace good_world)"
    by (simp add: good_world_def beach_prefix_def)
  have i: "InsertMessage ''c9'' user ''Plan a beach day'' \<in> set (trace good_world)"
    by (simp add: good_world_def beach_prefix_def)
  from user_message_stored_verbatim [OF good_run j u] a
  have "\<exists>m. message beach_body = Some m \<and>
          beach_content = excursion_message_content m (Some beach_context)" by blast
  then have c: "beach_content = excursion_message_content ''Plan a beach day'' (Some beach_context)"
    by (simp add: beach_body_def)
  from user_message_stored_verbatim [OF good_run j u] i
  have "message beach_body = Some ''Plan a beach day''" by blast
  then have m: "message beach_body = Some (content beach_user_row)"
    by (simp add: beach_user_row_def)
  have ms: "messages good_world = [] @ [beach_user_row, beach_assistant_row]"
    by (simp add: good_world_def)
  have r: "msg_role beach_user_row = user" by (simp add: beach_user_row_def)
  have ne: "beach_content \<noteq> content beach_user_row"
    by (simp add: beach_content_def beach_user_row_def)
  note g = good_run
  show ?thesis by (intro conjI) fact+
qed

section \<open>The health coach endpoint\<close>

lemma handler_body_health_coach:
  "handler_body health_coach (req\<lparr>json := Inr (b\<lparr>userContext := uc\<rparr>)\<rparr>) e =
   handler_body health_coach (req\<lparr>json := Inr b\<rparr>) e"
  by (simp add: handler_body_def send_turn_def case_prod_unfold cong: option.case_cong if_cong)

text \<open>
  Claim C10. At the health coach endpoint the handler's result does not depend on the
  \<^verbatim>\<open>userContext\<close> field of the body: replacing it by anything changes neither the response
  nor the final state. Whenever the append call is issued, the text it carries is the
  request's message, the same text as the stored user message inserted just before it.
\<close>

theorem health_coach_ignores_user_context:
  "handler health_coach (req\<lparr>json := Inr (b\<lparr>userContext := uc\<rparr>)\<rparr>) e w =
     handler health_coach (req\<lparr>json := Inr b\<rparr>) e w \<and>
   (\<forall>resp w' t c.
      handler health_coach (req\<lparr>json := Inr b\<rparr>) e (new_world cs ms) = (resp, w') \<and>
      AppendMessage t c \<in> set (trace w') \<longrightarrow>
        message b = Some c \<and>
        (\<exists>cid. \<lparr>conversation_id = cid, msg_role = user, content = c\<rparr> \<in> set (messages w') \<and>
           (\<exists>pre post. trace w' = pre @ [InsertMessage cid user c, AppendMessage t c] @ post)))"
proof -
  have 1: "handler health_coach (req\<lparr>json := Inr (b\<lparr>userContext := uc\<rparr>)\<rparr>) e w =
     handler health_coach (req\<lparr>json := Inr b\<rparr>) e w"
    by (simp add: handler_def handler_body_health_coach)
  have 2: "message b = Some c \<and>
        (\<exists>cid. \<lparr>conversation_id = cid, msg_role = user, content = c\<rparr> \<in> set (messages w') \<and>
           (\<exists>pre post. trace w' = pre @ [InsertMessage cid user c, AppendMessage t c] @ post))"
    if h: "handler health_coach (req\<lparr>json := Inr b\<rparr>) e (new_world cs ms) = (resp, w')"
      "AppendMessage t c \<in> set (trace w')" for resp w' t c
    using handler_messages [OF h(1), of b] h(2) by simp
  from 1 2 show ?thesis by blast
qed

theorem health_coach_ignores_user_context_witness:
  "handler health_coach (beach_request\<lparr>json := Inr beach_body\<rparr>) good_env (new_world Map.empty []) =
     (pier_response, coach_world) \<and>
   AppendMessage ''t9'' ''Plan a beach day'' \<in> set (trace coach_world) \<and>
   message beach_body = Some ''Plan a beach day'' \<and>
   beach_user_row \<in> set (messages coach_world) \<and>
   userContext beach_body = Some beach_context \<and>
   handler health_coach (beach_request\<lparr>json := Inr (beach_body\<lparr>userContext := None\<rparr>)\<rparr>)
     good_env (new_world Map.empty []) = (pier_response, coach_world)"
proof -
  have r: "handler health_coach (beach_request\<lparr>json := Inr beach_body\<rparr>) good_env
      (new_world Map.empty []) = (pier_response, coach_world)"
    using coach_run by (simp add: beach_request_def)
  have a: "AppendMessage ''t9'' ''Plan a beach day'' \<in> set (trace coach_world)"
    by (simp add: coach_world_def)
  note c10 = health_coach_ignores_user_context
    [where req = beach_request and b = beach_body and uc = None and e = good_env
       and w = "new_world Map.empty []" and cs = Map.empty and ms = "[]"]
  from c10 r have "handler health_coach (beach_request\<lparr>json := Inr (beach_body\<lparr>userContext := None\<rparr>)\<rparr>)
     good_env (new_world Map.empty []) = (pier_response, coach_world)" by simp
  moreover from c10 r a have "message beach_body = Some ''Plan a beach day''" by blast
  ultimately show ?thesis using r a
    by (simp add: coach_world_def beach_user_row_def beach_body_def)
qed

section \<open>A conversation id that is not the caller's\<close>

lemma event_thread_run_event: "run_event t c ev \<Longrightarrow> event_thread ev = Some t' \<Longrightarrow> t' = t"
  by (cases ev) auto

lemma send_turn_threads:
  assumes "send_turn ty e uid m uc t c w = (res, w')"
  shows "conversations w' = conversations w \<and>
    (\<exists>evs. trace w' = trace w @ InsertMessage c user m # evs \<and>
       (\<forall>ev\<in>set evs. \<forall>t'. event_thread ev = Some t' \<longrightarrow> t' = t) \<and>
       (\<forall>c' r x. InsertMessage c' r x \<in> set evs \<longrightarrow> c' = c)) \<and>
    (\<forall>d. res = Inr d \<longrightarrow> (\<exists>reply. d = ChatResponse reply c t))"
  using assms
proof (cases rule: send_turn_cases)
  case (insert_failed x)
  then show ?thesis by simp
next
  case (append_failed x)
  then show ?thesis by simp
next
  case appended
  from run_assistant_frame [OF appended(3)] obtain evs where
    evs: "conversations w' = conversations w"
      "trace w' = trace w @ InsertMessage c user m # AppendMessage t (build_message_content ty m uc) # evs"
      "\<forall>ev\<in>set evs. run_event t c ev"
    by auto
  from evs(3) have "\<forall>ev\<in>set evs. \<forall>t'. event_thread ev = Some t' \<longrightarrow> t' = t"
    by (auto dest: event_thread_run_event)
  moreover from evs(3) have "\<forall>c' r x. InsertMessage c' r x \<in> set evs \<longrightarrow> c' = c" by auto
  moreover have "\<forall>d. res = Inr d \<longrightarrow> (\<exists>reply. d = ChatResponse reply c t)"
    using appended(3) by (auto dest: run_assistant_success)
  ultimately show ?thesis using evs(1,2) by auto
qed

text \<open>
  Claim C5. Take a request that passes the checks before the lookup (authorised caller
  \<open>uid\<close>, non-empty message, API key set) and supplies a conversation id \<open>cid\<close> whose
  lookup does not fail and which is absent from the store or belongs to someone else.
  Then a new remote thread is requested. Every thread identifier that occurs in a later
  call is the one the remote service returned for it; every message insert goes to the
  conversation the database has just generated, which was not in the store before and is
  now a row owned by \<open>uid\<close>, of this endpoint's type, bound to the new thread; a
  successful response names that conversation and that thread; no row that was in the
  store is changed. When thread creation and the insert succeed, the store is the old
  one plus exactly that row, and the user message is inserted for it.
\<close>

theorem unowned_conversation_creates_new:
  assumes run: "handler ty req e (new_world cs ms) = (resp, w')"
    and valid: "http_method req \<noteq> ''OPTIONS''" "truthy (authorization req)"
      "getUser e = Some uid" "json req = Inr b" "truthy (message b)" "truthy (OPENAI_API_KEY e)"
    and supplied: "conversationId b = Some cid" "selectConversationError e = None"
    and unowned: "\<forall>row. cs cid = Some row \<longrightarrow> user_id row \<noteq> uid"
  shows "CreateThread \<in> set (trace w') \<and>
     (\<forall>ev\<in>set (trace w'). \<forall>t. event_thread ev = Some t \<longrightarrow> createThreadResponse e = Ok t) \<and>
     (\<forall>c r m. InsertMessage c r m \<in> set (trace w') \<longrightarrow>
        c = generatedConversationId e \<and> c \<notin> dom cs \<and>
        (\<exists>t. createThreadResponse e = Ok t \<and>
           conversations w' c = Some \<lparr>user_id = uid, conv_assistant_type = ty, thread_id = t\<rparr>)) \<and>
     (\<forall>r c t. body resp = ChatResponse r c t \<longrightarrow>
        c = generatedConversationId e \<and> createThreadResponse e = Ok t) \<and>
     (\<forall>c row. cs c = Some row \<longrightarrow> conversations w' c = Some row) \<and>
     (\<forall>t. createThreadResponse e = Ok t \<and> insertConversationError e = None \<and>
          generatedConversationId e \<notin> dom cs \<longrightarrow>
        conversations w' = cs(generatedConversationId e \<mapsto>
          \<lparr>user_id = uid, conv_assistant_type = ty, thread_id = t\<rparr>) \<and>
        InsertMessage (generatedConversationId e) user (the (message b)) \<in> set (trace w'))"
  using run
proof (cases rule: handler_cases)
  case options
  with valid show ?thesis by simp
next
  case (rejected x)
  with valid show ?thesis by auto
next
  case (unresolved x uid' b' m tl)
  with valid supplied unowned show ?thesis
    by (auto simp: select_events_def)
next
  case (reused uid' b' m row res)
  with valid supplied unowned show ?thesis by auto
next
  case (created uid' b' m t res)
  from created valid have eq: "uid' = uid" "b' = b" by auto
  let ?g = "generatedConversationId e"
  let ?row = "\<lparr>user_id = uid, conv_assistant_type = ty, thread_id = t\<rparr>"
  from send_turn_threads [OF created(12)] eq obtain evs where
    cv: "conversations w' = cs(?g \<mapsto> ?row)"
    and tr: "trace w' = AuthGetUser # select_events uid (conversationId b) @
        [CreateThread, InsertConversation uid ty t] @ InsertMessage ?g user m # evs"
    and th: "\<forall>ev\<in>set evs. \<forall>t'. event_thread ev = Some t' \<longrightarrow> t' = t"
    and ins: "\<forall>c' r x. InsertMessage c' r x \<in> set evs \<longrightarrow> c' = ?g"
    and ok: "\<forall>d. res = Inr d \<longrightarrow> (\<exists>reply. d = ChatResponse reply ?g t)"
    by auto
  from tr have 1: "CreateThread \<in> set (trace w')" by simp
  from tr th created(9)
  have 2: "\<forall>ev\<in>set (trace w'). \<forall>t'. event_thread ev = Some t' \<longrightarrow> createThreadResponse e = Ok t'"
    by (auto simp: select_events_def)
  from tr ins created(9,11) cv
  have 3: "\<forall>c r x. InsertMessage c r x \<in> set (trace w') \<longrightarrow>
        c = ?g \<and> c \<notin> dom cs \<and>
        (\<exists>t. createThreadResponse e = Ok t \<and>
           conversations w' c = Some \<lparr>user_id = uid, conv_assistant_type = ty, thread_id = t\<rparr>)"
    by (auto simp: select_events_def)
  from ok created(13,9)
  have 4: "\<forall>r c t'. body resp = ChatResponse r c t' \<longrightarrow> c = ?g \<and> createThreadResponse e = Ok t'"
    by (cases res) auto
  from cv created(11) have 5: "\<forall>c row. cs c = Some row \<longrightarrow> conversations w' c = Some row"
    by auto
  from cv tr created(9,5) eq
  have 6: "\<forall>t'. createThreadResponse e = Ok t' \<and> insertConversationError e = None \<and> ?g \<notin> dom cs \<longrightarrow>
        conversations w' = cs(?g \<mapsto> \<lparr>user_id = uid, conv_assistant_type = ty, thread_id = t'\<rparr>) \<and>
        InsertMessage ?g user (the (message b)) \<in> set (trace w')"
    by auto
  from 1 2 3 4 5 6 show ?thesis by blast
qed

theorem unowned_conversation_creates_new_witness:
  "handler excursion_creator foreign_request good_env (new_world foreign_conversations []) =
     (pier_response, foreign_world) \<and>
   http_method foreign_request \<noteq> ''OPTIONS'' \<and> truthy (authorization foreign_request) \<and>
   getUser good_env = Some ''u1'' \<and> json foreign_request = Inr foreign_body \<and>
   truthy (message foreign_body) \<and> truthy (OPENAI_API_KEY good_env) \<and>
   conversationId foreign_body = Some ''c1'' \<and> selectConversationError good_env = None \<and>
   foreign_conversations ''c1'' = Some other_row \<and> user_id other_row \<noteq> ''u1'' \<and>
   CreateThread \<in> set (trace foreign_world) \<and>
   conversations foreign_world ''c1'' = Some other_row \<and>
   conversations foreign_world ''c9'' =
     Some \<lparr>user_id = ''u1'', conv_assistant_type = excursion_creator, thread_id = ''t9''\<rparr> \<and>
   body pier_response = ChatResponse ''Walk to the pier'' ''c9'' ''t9''"
proof -
  have v1: "http_method foreign_request \<noteq> ''OPTIONS''"
    and v2: "truthy (authorization foreign_request)"
    and v4: "json foreign_request = Inr foreign_body"
    by (simp_all add: foreign_request_def beach_request_def)
  have v3: "getUser good_env = Some ''u1''" and v6: "truthy (OPENAI_API_KEY good_env)"
    and s2: "selectConversationError good_env = None"
    by (simp_all add: good_env_def)
  have v5: "truthy (message foreign_body)" and s1: "conversationId foreign_body = Some ''c1''"
    by (simp_all add: foreign_body_def beach_body_def)
  have o1: "foreign_conversations ''c1'' = Some other_row"
    by (simp add: foreign_conversations_def)
  have o2: "user_id other_row \<noteq> ''u1''" by (simp add: other_row_def)
  from o1 o2 have u: "\<forall>row. foreign_conversations ''c1'' = Some row \<longrightarrow> user_id row \<noteq> ''u1''"
    by simp
  note c5 = unowned_conversation_creates_new [OF foreign_run v1 v2 v3 v4 v5 v6 s1 s2 u]
  from c5 have t: "CreateThread \<in> set (trace foreign_world)" by blast
  from c5 o1 have k: "conversations foreign_world ''c1'' = Some other_row" by blast
  have n: "conversations foreign_world ''c9'' =
     Some \<lparr>user_id = ''u1'', conv_assistant_type = excursion_creator, thread_id = ''t9''\<rparr>"
    by (simp add: foreign_world_def)
  have p: "body pier_response = ChatResponse ''Walk to the pier'' ''c9'' ''t9''"
    by (simp add: pier_response_def)
  note r = foreign_run
  show ?thesis by (intro conjI) fact+
qed

section \<open>Failures at the handler boundary\<close>

lemma poll_loop_failure:
  "poll_loop e t r s a w = (res, w') \<Longrightarrow> a \<le> k \<Longrightarrow>
   k - a < polls (trace w') - polls (trace w) \<Longrightarrow>
     (statusResponse e k = NotOk \<longrightarrow> res = Inl (JsError ''Failed to check run status'')) \<and>
     (\<forall>x. statusResponse e k = Rejected x \<longrightarrow> res = Inl x)"
proof (induction e t r s a w arbitrary: res w' rule: poll_loop.induct)
  case (1 e t r s a w)
  let ?w1 = "w\<lparr>trace := trace w @ [Sleep 1000, GetRun t r]\<rparr>"
  have p1: "polls (trace ?w1) = polls (trace w) + 1" by (simp add: polls_def)
  show ?case
  proof (cases "s \<noteq> ''completed'' \<and> a < maxAttempts")
    case False
    with "1.prems"(1) have "w' = w" by (simp add: poll_loop.simps [of e t r s a w])
    with "1.prems"(3) show ?thesis by simp
  next
    case guard: True
    show ?thesis
    proof (cases "\<exists>st'. statusResponse e a = Ok st' \<and> \<not> terminal_failure st'")
      case True
      then obtain st' where st': "statusResponse e a = Ok st'" "\<not> terminal_failure st'" by blast
      with guard "1.prems"(1) have rec: "poll_loop e t r st' (a + 1) ?w1 = (res, w')"
        by (simp add: poll_loop.simps [of e t r s a w])
      show ?thesis
      proof (cases "k = a")
        case True
        with st' show ?thesis by simp
      next
        case False
        with "1.prems"(2) have k: "a + 1 \<le> k" by simp
        with "1.prems"(3) p1 have "k - (a + 1) < polls (trace w') - polls (trace ?w1)" by simp
        from "1.IH" [OF guard st' rec k this] show ?thesis .
      qed
    next
      case False
      with guard "1.prems"(1) have w': "w' = ?w1"
        by (cases "statusResponse e a") (auto simp: poll_loop.simps [of e t r s a w] split: if_splits)
      with "1.prems"(3) p1 have "k - a = 0" by simp
      with "1.prems"(2) have "k = a" by simp
      with "1.prems"(1) guard show ?thesis
        by (auto simp: poll_loop.simps [of e t r s a w])
    qed
  qed
qed

lemma poll_loop_last:
  "poll_loop e t r s a w = (res, w') \<Longrightarrow> a < maxAttempts \<Longrightarrow>
   maxAttempts - 1 - a < polls (trace w') - polls (trace w) \<Longrightarrow>
   statusResponse e (maxAttempts - 1) = Ok st \<Longrightarrow> \<not> terminal_failure st \<Longrightarrow> res = Inr st"
proof (induction e t r s a w arbitrary: res w' rule: poll_loop.induct)
  case (1 e t r s a w)
  let ?w1 = "w\<lparr>trace := trace w @ [Sleep 1000, GetRun t r]\<rparr>"
  have p1: "polls (trace ?w1) = polls (trace w) + 1" by (simp add: polls_def)
  show ?case
  proof (cases "s \<noteq> ''completed'' \<and> a < maxAttempts")
    case False
    with "1.prems"(1) have "w' = w" by (simp add: poll_loop.simps [of e t r s a w])
    with "1.prems"(3) show ?thesis by simp
  next
    case guard: True
    show ?thesis
    proof (cases "\<exists>st'. statusResponse e a = Ok st' \<and> \<not> terminal_failure st'")
      case True
      then obtain st' where st': "statusResponse e a = Ok st'" "\<not> terminal_failure st'" by blast
      with guard "1.prems"(1) have rec: "poll_loop e t r st' (a + 1) ?w1 = (res, w')"
        by (simp add: poll_loop.simps [of e t r s a w])
      show ?thesis
      proof (cases "a + 1 < maxAttempts")
        case True
        with "1.prems"(3) p1 have "maxAttempts - 1 - (a + 1) < polls (trace w') - polls (trace ?w1)"
          by simp
        from "1.IH" [OF guard st' rec True this "1.prems"(4,5)] show ?thesis .
      next
        case False
        with guard have a: "a = maxAttempts - 1" by arith
        with st' "1.prems"(4) have "st' = st" by simp
        with rec False show ?thesis by (simp add: poll_loop.simps [of e t r st "Suc a"])
      qed
    next
      case False
      with guard "1.prems"(1) have w': "w' = ?w1"
        by (cases "statusResponse e a") (auto simp: poll_loop.simps [of e t r s a w] split: if_splits)
      with "1.prems"(3) p1 have "maxAttempts - 1 - a = 0" by simp
      with guard have "a = maxAttempts - 1" by arith
      with False "1.prems"(4,5) show ?thesis by simp
    qed
  qed
qed

lemma poll_loop_report:
  assumes "poll_loop e t r s 0 w = (pr, w2)" "polls (trace w) = 0"
  shows "(\<forall>k. k < polls (trace w2) \<longrightarrow>
            (statusResponse e k = NotOk \<longrightarrow> pr = Inl (JsError ''Failed to check run status'')) \<and>
            (\<forall>x. statusResponse e k = Rejected x \<longrightarrow> pr = Inl x) \<and>
            (\<forall>st. statusResponse e k = Ok st \<and> terminal_failure st \<longrightarrow>
               pr = Inl (JsError (''Assistant run '' @ st)))) \<and>
         (\<forall>st. polls (trace w2) = maxAttempts \<and> statusResponse e (maxAttempts - 1) = Ok st \<and>
               \<not> terminal_failure st \<longrightarrow> pr = Inr st)"
proof -
  have 1: "(statusResponse e k = NotOk \<longrightarrow> pr = Inl (JsError ''Failed to check run status'')) \<and>
            (\<forall>x. statusResponse e k = Rejected x \<longrightarrow> pr = Inl x) \<and>
            (\<forall>st. statusResponse e k = Ok st \<and> terminal_failure st \<longrightarrow>
               pr = Inl (JsError (''Assistant run '' @ st)))"
    if "k < polls (trace w2)" for k
  proof -
    from that assms(2) have d: "k - 0 < polls (trace w2) - polls (trace w)" by simp
    from poll_loop_failure [OF assms(1) _ d] poll_loop_terminal [OF assms(1) _ d]
    show ?thesis by auto
  qed
  have 2: "pr = Inr st" if "polls (trace w2) = maxAttempts"
    "statusResponse e (maxAttempts - 1) = Ok st" "\<not> terminal_failure st" for st
  proof -
    from that(1) assms(2) have "maxAttempts - 1 - 0 < polls (trace w2) - polls (trace w)"
      by (simp add: maxAttempts_def)
    from poll_loop_last [OF assms(1) _ this that(2,3)] show ?thesis
      by (simp add: maxAttempts_def)
  qed
  from 1 2 show ?thesis by blast
qed

lemma error_message_case:
  "(case x of JsError m \<Rightarrow> m | NonError \<Rightarrow> ''An unknown error occurred'') = error_message x"
  by (cases x) simp_all

lemma terminal_failure_spelled:
  "(st = ''failed'' \<or> st = ''cancelled'' \<or> st = ''expired'') = terminal_failure st"
  by (simp add: terminal_failure_def)

lemma assistant_id_env_case:
  "(case ty of health_coach \<Rightarrow> HEALTH_COACH_ASSISTANT_ID e | excursion_creator \<Rightarrow> EXCURSION_CREATOR_ASSISTANT_ID e) = assistant_id_env ty e"
  by (cases ty) simp_all

lemma assistant_id_missing_case:
  "(case ty of health_coach \<Rightarrow> ''Health Coach Assistant ID not configured'' | excursion_creator \<Rightarrow> ''Excursion Creator Assistant ID not configured'') = assistant_id_missing ty"
  by (cases ty) simp_all

lemma extract_reply_no_assistant:
  "find (\<lambda>msg. remote_role msg = ''assistant'') data = None \<Longrightarrow>
     extract_reply data = Inl (JsError ''No assistant response found'')"
  by (simp add: extract_reply_def)

lemma extract_reply_no_text:
  "find (\<lambda>msg. remote_role msg = ''assistant'') data = Some am \<Longrightarrow>
   find (\<lambda>p. part_type p = ''text'') (remote_content am) = None \<Longrightarrow>
     extract_reply data = Inl (JsError ''No text content in assistant response'')"
  by (simp add: extract_reply_def)

lemma extract_reply_Inr:
  "extract_reply data = Inr reply \<Longrightarrow>
     \<exists>am p. find (\<lambda>msg. remote_role msg = ''assistant'') data = Some am \<and>
       find (\<lambda>p. part_type p = ''text'') (remote_content am) = Some p \<and> reply = text_value p"
  by (auto simp: extract_reply_def split: option.splits)

lemma poll_events_only: "ev \<in> set (poll_events t r n) \<Longrightarrow> ev = Sleep 1000 \<or> ev = GetRun t r"
  using set_poll_events [of t r n] by auto

lemma run_failures_prefix: "\<forall>ev\<in>set tr. prefix_event ev \<Longrightarrow> run_failures e resp tr"
  unfolding run_failures_def using prefix_event_polls [of tr] by auto

lemmas spelled = error_message_case terminal_failure_spelled assistant_id_env_case
  assistant_id_missing_case

lemma run_assistant_report:
  assumes run: "run_assistant ty e t c w = (res, w')"
    and pre: "\<forall>ev\<in>set (trace w). prefix_event ev"
  shows "run_failures e (respond res) (trace w')"
proof -
  let ?a = "the (assistant_id_env ty e)"
  let ?w1 = "w\<lparr>trace := trace w @ [CreateRun t ?a]\<rparr>"
  from pre have p0: "polls (trace w) = 0" by (rule prefix_event_polls)
  from pre have nl: "\<forall>t. ListMessages t \<notin> set (trace w)"
    and ni: "\<forall>c r. InsertMessage c assistant r \<notin> set (trace w)" by auto
  from run_assistant_inv [OF run]
  consider (noid) "w' = w"
    | (norun) x where "res = Inl x" "\<forall>r. runResponse e \<noteq> Ok r"
        "runResponse e = NotOk \<longrightarrow> res = Inl (JsError ''Failed to run assistant'')"
        "\<forall>y. runResponse e = Rejected y \<longrightarrow> res = Inl y" "w' = ?w1"
    | (polled) r pr w2 where "runResponse e = Ok r"
        "poll_loop e t (run_id r) (run_status r) 0 ?w1 = (pr, w2)"
        "(\<exists>x. pr = Inl x \<and> res = Inl x \<and> w' = w2) \<or>
         (\<exists>s. pr = Inr s \<and> s \<noteq> ''completed'' \<and>
              res = Inl (JsError ''Assistant run timed out'') \<and> w' = w2) \<or>
         (pr = Inr ''completed'' \<and> retrieve_reply e t c w2 = (res, w'))"
    by blast
  then show ?thesis
  proof cases
    case noid
    with pre show ?thesis by (simp add: run_failures_prefix)
  next
    case norun
    with p0 nl ni show ?thesis
      unfolding run_failures_def by (auto simp: spelled)
  next
    case polled
    from poll_loop_shape [OF polled(2)] obtain n where
      w2: "w2 = ?w1\<lparr>trace := trace ?w1 @ poll_events t (run_id r) n\<rparr>" by blast
    with p0 have pn: "polls (trace w2) = n" by simp
    from p0 have "polls (trace ?w1) = 0" by simp
    note rep = poll_loop_report [OF polled(2) this, unfolded pn]
    from w2 nl ni have nl2: "\<forall>t. ListMessages t \<notin> set (trace w2)"
      and ni2: "\<forall>c r. InsertMessage c assistant r \<notin> set (trace w2)"
      by (auto dest: poll_events_only)
    from polled(3) consider (threw) x where "pr = Inl x" "res = Inl x" "w' = w2"
      | (timeout) s where "pr = Inr s" "s \<noteq> ''completed''"
          "res = Inl (JsError ''Assistant run timed out'')" "w' = w2"
      | (finished) "pr = Inr ''completed''" "retrieve_reply e t c w2 = (res, w')"
      by blast
    then show ?thesis
    proof cases
      case threw
      with rep pn nl2 ni2 polled(1) show ?thesis
        unfolding run_failures_def by (auto simp: spelled maxAttempts_def)
    next
      case timeout
      with rep pn nl2 ni2 polled(1) show ?thesis
        unfolding run_failures_def by (auto simp: spelled maxAttempts_def)
    next
      case finished
      from retrieve_reply_inv [OF finished(2)]
      have pw: "polls (trace w') = n" using pn by auto
      from retrieve_reply_inv [OF finished(2)] ni2
      have fin: "(messagesResponse e = NotOk \<longrightarrow> res = Inl (JsError ''Failed to retrieve messages'')) \<and>
        (\<forall>y. messagesResponse e = Rejected y \<longrightarrow> res = Inl y) \<and>
        (\<forall>data y. messagesResponse e = Ok data \<and> extract_reply data = Inl y \<longrightarrow> res = Inl y) \<and>
        (\<forall>c reply y. InsertMessage c assistant reply \<in> set (trace w') \<and>
           insertAssistantMessageError e = Some y \<longrightarrow> res = Inl y)"
        by auto
      from finished(1) rep pw polled(1) fin show ?thesis
        unfolding run_failures_def
        by (auto simp: spelled maxAttempts_def dest: extract_reply_no_assistant extract_reply_no_text)
    qed
  qed
qed

lemma handler_run_failures:
  assumes "handler ty req e (new_world cs ms) = (resp, w')"
  shows "run_failures e resp (trace w')"
  using assms
proof (cases rule: handler_run_cases)
  case no_run
  then show ?thesis by (simp add: run_failures_prefix)
next
  case (run t c w1 res)
  then show ?thesis by (simp add: run_assistant_report)
qed

lemma run_frame_turn:
  "\<forall>ev\<in>set evs. run_event t c ev \<Longrightarrow>
     CreateThread \<notin> set evs \<and> SelectConversation c' u \<notin> set evs \<and>
     InsertConversation u a t' \<notin> set evs \<and> InsertMessage c' user x \<notin> set evs \<and>
     AppendMessage t' y \<notin> set evs"
  by auto

lemma send_turn_report:
  assumes st: "send_turn ty e uid m uc t c w = (res, w')"
    and sel: "(\<exists>c u. SelectConversation c u \<in> set (trace w)) \<longrightarrow> selectConversationError e = None"
    and thr: "CreateThread \<in> set (trace w) \<longrightarrow> (\<exists>t. createThreadResponse e = Ok t)"
    and ins: "(\<exists>u a t. InsertConversation u a t \<in> set (trace w)) \<longrightarrow>
                insertConversationError e = None"
    and pre: "\<forall>ev\<in>set (trace w). prefix_event ev"
    and nm: "\<forall>c m. InsertMessage c user m \<notin> set (trace w)"
    and na: "\<forall>t c. AppendMessage t c \<notin> set (trace w)"
  shows "turn_failures ty e (respond res) (trace w')"
  using st
proof (cases rule: send_turn_cases)
  case (insert_failed x)
  with sel thr ins nm na show ?thesis
    unfolding turn_failures_def by (auto simp: spelled)
next
  case (append_failed x)
  with sel thr ins nm na show ?thesis
    unfolding turn_failures_def by (auto simp: spelled)
next
  case appended
  let ?w2 = "w\<lparr>messages := messages w @ [\<lparr>conversation_id = c, msg_role = user, content = m\<rparr>],
             trace := trace w @ [InsertMessage c user m,
               AppendMessage t (build_message_content ty m uc)]\<rparr>"
  from run_assistant_frame [OF appended(3)] obtain evs where
    evs: "trace w' = trace ?w2 @ evs" "\<forall>ev\<in>set evs. run_event t c ev" by blast
  note fr = run_frame_turn [OF evs(2)]
  from run_assistant_inv [OF appended(3)]
  have noid: "\<not> truthy (assistant_id_env ty e) \<longrightarrow> res = Inl (JsError (assistant_id_missing ty))"
    by auto
  from evs(1) fr sel thr ins appended(1,2) noid show ?thesis
    unfolding turn_failures_def by (auto simp: spelled)
qed

lemma handler_turn_failures:
  assumes "handler ty req e (new_world cs ms) = (resp, w')" "http_method req \<noteq> ''OPTIONS''"
  shows "turn_failures ty e resp (trace w')"
  using assms(1)
proof (cases rule: handler_cases)
  case options
  with assms(2) show ?thesis by simp
next
  case (rejected x)
  then show ?thesis unfolding turn_failures_def by auto
next
  case (unresolved x uid b m tl)
  note u = unresolved
  from u(12) consider (a) "tl = []"
    | (b) "tl = [CreateThread]" "\<forall>t. createThreadResponse e \<noteq> Ok t"
    | (c) t where "createThreadResponse e = Ok t" "tl = [CreateThread, InsertConversation uid ty t]"
    by blast
  then show ?thesis
  proof cases
    case a
    with u(8,11,13) show ?thesis
      unfolding turn_failures_def by (auto simp: spelled select_events_def)
  next
    case b
    with u(8,11,13) show ?thesis
      unfolding turn_failures_def by (auto simp: spelled select_events_def)
  next
    case c
    with u(8,11,13) show ?thesis
      unfolding turn_failures_def by (auto simp: spelled select_events_def)
  qed
next
  case (reused uid b m row res)
  from send_turn_report [OF reused(12)] reused(9,13) show ?thesis by simp
next
  case (created uid b m t res)
  from send_turn_report [OF created(12)] created(8,9,10,13) show ?thesis
    by (simp add: select_events_def)
qed

lemma handler_early_failures:
  assumes "handler ty req e (new_world cs ms) = (resp, w')" "http_method req \<noteq> ''OPTIONS''"
  shows "(\<not> truthy (authorization req) \<longrightarrow>
        resp = \<lparr>status = 500, body = ErrorBody ''No authorization header''\<rparr>) \<and>
         (truthy (authorization req) \<and> getUser e = None \<longrightarrow>
        resp = \<lparr>status = 500, body = ErrorBody ''Unauthorized''\<rparr>) \<and>
         (\<forall>x. truthy (authorization req) \<and> getUser e \<noteq> None \<and> json req = Inl x \<longrightarrow>
        resp = \<lparr>status = 500, body = ErrorBody 
          (case x of JsError m \<Rightarrow> m | NonError \<Rightarrow> ''An unknown error occurred'')\<rparr>) \<and>
         (\<forall>b. truthy (authorization req) \<and> getUser e \<noteq> None \<and> json req = Inr b \<and>
          \<not> truthy (message b) \<longrightarrow>
        resp = \<lparr>status = 500, body = ErrorBody ''Message is required''\<rparr>) \<and>
         (\<forall>b. truthy (authorization req) \<and> getUser e \<noteq> None \<and> json req = Inr b \<and>
          truthy (message b) \<and> \<not> truthy (OPENAI_API_KEY e) \<longrightarrow>
        resp = \<lparr>status = 500, body = ErrorBody ''OpenAI API key not configured''\<rparr>)"
  using assms
  by (auto simp: handler_def handler_body_def step_defs new_world_def spelled)

lemma run_assistant_outcome:
  assumes run: "run_assistant ty e t c w = (res, w')" and p0: "polls (trace w) = 0"
  shows "((\<exists>x. res = Inl x) \<and> messages w' = messages w) \<or>
    (\<exists>reply. res = Inr (ChatResponse reply c t) \<and>
       messages w' = messages w @ [\<lparr>conversation_id = c, msg_role = assistant, content = reply\<rparr>] \<and>
       (\<exists>pre. trace w' = pre @ [ListMessages t, InsertMessage c assistant reply]) \<and>
       truthy (assistant_id_env ty e) \<and> (\<exists>r. runResponse e = Ok r) \<and>
       (\<forall>k. k < polls (trace w') \<longrightarrow>
          (\<exists>st. statusResponse e k = Ok st \<and> \<not> terminal_failure st)) \<and>
       (\<exists>data. messagesResponse e = Ok data \<and> extract_reply data = Inr reply) \<and>
       insertAssistantMessageError e = None)"
proof (cases res)
  case (Inl x)
  with run_assistant_frame [OF run] show ?thesis by auto
next
  case (Inr d)
  let ?w1 = "w\<lparr>trace := trace w @ [CreateRun t (the (assistant_id_env ty e))]\<rparr>"
  from run_assistant_inv [OF run] Inr obtain r w2 where
    tr: "truthy (assistant_id_env ty e)" and rr: "runResponse e = Ok r"
    and pl: "poll_loop e t (run_id r) (run_status r) 0 ?w1 = (Inr ''completed'', w2)"
    and rp: "retrieve_reply e t c w2 = (res, w')"
    by auto
  from poll_loop_shape [OF pl] have m2: "messages w2 = messages w" by auto
  from p0 have "polls (trace ?w1) = 0" by simp
  note rep = poll_loop_report [OF pl this]
  have okk: "\<exists>st. statusResponse e k = Ok st \<and> \<not> terminal_failure st"
    if "k < polls (trace w2)" for k
    using rep that by (cases "statusResponse e k") auto
  from retrieve_reply_inv [OF rp] Inr obtain data reply where
    fin: "messagesResponse e = Ok data" "extract_reply data = Inr reply"
      "insertAssistantMessageError e = None" "res = Inr (ChatResponse reply c t)"
      "w' = w2\<lparr>messages := messages w2 @
                     [\<lparr>conversation_id = c, msg_role = assistant, content = reply\<rparr>],
                  trace := trace w2 @ [ListMessages t, InsertMessage c assistant reply]\<rparr>"
    by auto
  from fin(5) have "polls (trace w') = polls (trace w2)" by simp
  with okk have "\<forall>k. k < polls (trace w') \<longrightarrow>
          (\<exists>st. statusResponse e k = Ok st \<and> \<not> terminal_failure st)" by simp
  moreover from fin(5) have "\<exists>pre. trace w' = pre @ [ListMessages t, InsertMessage c assistant reply]"
    by simp
  ultimately show ?thesis using fin m2 tr rr by auto
qed

lemma send_turn_outcome:
  assumes st: "send_turn ty e uid m uc t c w = (res, w')" and p0: "polls (trace w) = 0"
  shows "((\<exists>x. res = Inl x) \<and>
      (messages w' = messages w \<or>
       messages w' = messages w @ [\<lparr>conversation_id = c, msg_role = user, content = m\<rparr>])) \<or>
    (\<exists>reply. res = Inr (ChatResponse reply c t) \<and>
       messages w' = messages w @ [\<lparr>conversation_id = c, msg_role = user, content = m\<rparr>,
         \<lparr>conversation_id = c, msg_role = assistant, content = reply\<rparr>] \<and>
       (\<exists>pre. trace w' = pre @ [ListMessages t, InsertMessage c assistant reply]) \<and>
       insertUserMessageError e = None \<and> addMessageResponse e = Ok () \<and>
       truthy (assistant_id_env ty e) \<and> (\<exists>r. runResponse e = Ok r) \<and>
       (\<forall>k. k < polls (trace w') \<longrightarrow>
          (\<exists>st. statusResponse e k = Ok st \<and> \<not> terminal_failure st)) \<and>
       (\<exists>data. messagesResponse e = Ok data \<and> extract_reply data = Inr reply) \<and>
       insertAssistantMessageError e = None)"
  using st
proof (cases rule: send_turn_cases)
  case (insert_failed x)
  then show ?thesis by simp
next
  case (append_failed x)
  then show ?thesis by simp
next
  case appended
  from p0 run_assistant_outcome [OF appended(3)] appended(1,2) show ?thesis by auto
qed

lemma handler_shape:
  assumes "handler ty req e (new_world cs ms) = (resp, w')" "http_method req \<noteq> ''OPTIONS''"
  shows "((\<exists>reply c t m.
         resp = \<lparr>status = 200, body = ChatResponse reply c t\<rparr> \<and>
         messages w' = ms @ [\<lparr>conversation_id = c, msg_role = user, content = m\<rparr>,
                              \<lparr>conversation_id = c, msg_role = assistant, content = reply\<rparr>] \<and>
         (\<exists>pre. trace w' = pre @ [ListMessages t, InsertMessage c assistant reply]) \<and>
         truthy (authorization req) \<and> getUser e \<noteq> None \<and>
         (\<exists>b. json req = Inr b \<and> message b = Some m \<and> m \<noteq> []) \<and>
         truthy (OPENAI_API_KEY e) \<and> insertUserMessageError e = None \<and>
         addMessageResponse e = Ok () \<and>
         truthy 
           (case ty of health_coach \<Rightarrow> HEALTH_COACH_ASSISTANT_ID e | excursion_creator \<Rightarrow> EXCURSION_CREATOR_ASSISTANT_ID e) \<and>
         (\<exists>r. runResponse e = Ok r) \<and>
         (\<forall>k. k < polls (trace w') \<longrightarrow>
            (\<exists>st. statusResponse e k = Ok st \<and> \<not> (st = ''failed'' \<or> st = ''cancelled'' \<or> st = ''expired''))) \<and>
         (\<exists>data am p. messagesResponse e = Ok data \<and>
            find (\<lambda>msg. remote_role msg = ''assistant'') data = Some am \<and>
            find (\<lambda>p. part_type p = ''text'') (remote_content am) = Some p \<and> reply = text_value p) \<and>
         insertAssistantMessageError e = None) \<or>
       (\<exists>m. resp = \<lparr>status = 500, body = ErrorBody m\<rparr> \<and>
          (messages w' = ms \<or>
           (\<exists>c u. messages w' = ms @ [\<lparr>conversation_id = c, msg_role = user, content = u\<rparr>]))))"
  using assms(1)
proof (cases rule: handler_cases)
  case options
  with assms(2) show ?thesis by simp
next
  case (rejected x)
  then show ?thesis by simp
next
  case (unresolved x uid b m tl)
  then show ?thesis by simp
next
  case (reused uid b m row res)
  from send_turn_outcome [OF reused(12)]
  have "((\<exists>x. res = Inl x) \<and> (messages w' = ms \<or> (\<exists>c u. messages w' =
            ms @ [\<lparr>conversation_id = c, msg_role = user, content = u\<rparr>]))) \<or>
    (\<exists>reply c t. res = Inr (ChatResponse reply c t) \<and>
       messages w' = ms @ [\<lparr>conversation_id = c, msg_role = user, content = m\<rparr>,
         \<lparr>conversation_id = c, msg_role = assistant, content = reply\<rparr>] \<and>
       (\<exists>pre. trace w' = pre @ [ListMessages t, InsertMessage c assistant reply]) \<and>
       insertUserMessageError e = None \<and> addMessageResponse e = Ok () \<and>
       truthy (assistant_id_env ty e) \<and> (\<exists>r. runResponse e = Ok r) \<and>
       (\<forall>k. k < polls (trace w') \<longrightarrow>
          (\<exists>st. statusResponse e k = Ok st \<and> \<not> terminal_failure st)) \<and>
       (\<exists>data. messagesResponse e = Ok data \<and> extract_reply data = Inr reply) \<and>
       insertAssistantMessageError e = None)"
    by auto
  with reused(2-7,13) show ?thesis
    by (elim disjE conjE exE) (auto simp: spelled dest!: extract_reply_Inr)
next
  case (created uid b m t res)
  have "polls (AuthGetUser # select_events uid (conversationId b) @
      [CreateThread, InsertConversation uid ty t]) = 0"
    by (simp add: select_events_def)
  with send_turn_outcome [OF created(12)]
  have "((\<exists>x. res = Inl x) \<and> (messages w' = ms \<or> (\<exists>c u. messages w' =
            ms @ [\<lparr>conversation_id = c, msg_role = user, content = u\<rparr>]))) \<or>
    (\<exists>reply c t. res = Inr (ChatResponse reply c t) \<and>
       messages w' = ms @ [\<lparr>conversation_id = c, msg_role = user, content = m\<rparr>,
         \<lparr>conversation_id = c, msg_role = assistant, content = reply\<rparr>] \<and>
       (\<exists>pre. trace w' = pre @ [ListMessages t, InsertMessage c assistant reply]) \<and>
       insertUserMessageError e = None \<and> addMessageResponse e = Ok () \<and>
       truthy (assistant_id_env ty e) \<and> (\<exists>r. runResponse e = Ok r) \<and>
       (\<forall>k. k < polls (trace w') \<longrightarrow>
          (\<exists>st. statusResponse e k = Ok st \<and> \<not> terminal_failure st)) \<and>
       (\<exists>data. messagesResponse e = Ok data \<and> extract_reply data = Inr reply) \<and>
       insertAssistantMessageError e = None)"
    by auto
  with created(2-7,13) show ?thesis
    by (elim disjE conjE exE) (auto simp: spelled dest!: extract_reply_Inr)
qed

text \<open>
  Claim C6. For every request other than the preflight, the response is either status
  200 with a chat response, and then every step succeeded and the reply is stored, or
  status 500 with a body \<^verbatim>\<open>{ error: message }\<close>, and then no assistant message is stored;
  no other status occurs. Every kind of failure gives status 500 with its own message:
  a missing authorization header, a caller the auth service does not know, a body that
  does not decode, an empty message, a missing API key or assistant id, a non-success
  answer of the remote service to the creation of the thread, the append, the creation
  of the run, a status poll or the listing of messages, a run polled as failed,
  cancelled or expired, a run still unfinished at the 30th poll, a reply with no
  assistant message or no text, and any error of the store or thrown value, which is
  reported with its own message, or with "An unknown error occurred" when it is no
  \<^verbatim>\<open>Error\<close>.
\<close>

theorem failures_become_status_500:
  assumes "handler ty req e (new_world cs ms) = (resp, w')" "http_method req \<noteq> ''OPTIONS''"
  shows
   "(\<not> truthy (authorization req) \<longrightarrow>
        resp = \<lparr>status = 500, body = ErrorBody ''No authorization header''\<rparr>) \<and>
    (truthy (authorization req) \<and> getUser e = None \<longrightarrow>
        resp = \<lparr>status = 500, body = ErrorBody ''Unauthorized''\<rparr>) \<and>
    (\<forall>x. truthy (authorization req) \<and> getUser e \<noteq> None \<and> json req = Inl x \<longrightarrow>
        resp = \<lparr>status = 500, body = ErrorBody 
          (case x of JsError m \<Rightarrow> m | NonError \<Rightarrow> ''An unknown error occurred'')\<rparr>) \<and>
    (\<forall>b. truthy (authorization req) \<and> getUser e \<noteq> None \<and> json req = Inr b \<and>
          \<not> truthy (message b) \<longrightarrow>
        resp = \<lparr>status = 500, body = ErrorBody ''Message is required''\<rparr>) \<and>
    (\<forall>b. truthy (authorization req) \<and> getUser e \<noteq> None \<and> json req = Inr b \<and>
          truthy (message b) \<and> \<not> truthy (OPENAI_API_KEY e) \<longrightarrow>
        resp = \<lparr>status = 500, body = ErrorBody ''OpenAI API key not configured''\<rparr>) \<and>
    (\<forall>x. ((\<exists>c u. SelectConversation c u \<in> set (trace w')) \<and> selectConversationError e = Some x) \<or>
          (CreateThread \<in> set (trace w') \<and> createThreadResponse e = Rejected x) \<or>
          ((\<exists>u a t. InsertConversation u a t \<in> set (trace w')) \<and> insertConversationError e = Some x) \<or>
          ((\<exists>c m. InsertMessage c user m \<in> set (trace w')) \<and> insertUserMessageError e = Some x) \<or>
          ((\<exists>t c. AppendMessage t c \<in> set (trace w')) \<and> addMessageResponse e = Rejected x) \<longrightarrow>
        resp = \<lparr>status = 500, body = ErrorBody 
          (case x of JsError m \<Rightarrow> m | NonError \<Rightarrow> ''An unknown error occurred'')\<rparr>) \<and>
    (CreateThread \<in> set (trace w') \<and> createThreadResponse e = NotOk \<longrightarrow>
        resp = \<lparr>status = 500, body = ErrorBody ''Failed to create OpenAI thread''\<rparr>) \<and>
    ((\<exists>t c. AppendMessage t c \<in> set (trace w')) \<and> addMessageResponse e = NotOk \<longrightarrow>
        resp = \<lparr>status = 500, body = ErrorBody ''Failed to add message to thread''\<rparr>) \<and>
    ((\<exists>t c. AppendMessage t c \<in> set (trace w')) \<and> addMessageResponse e = Ok () \<and>
          \<not> truthy 
            (case ty of health_coach \<Rightarrow> HEALTH_COACH_ASSISTANT_ID e | excursion_creator \<Rightarrow> EXCURSION_CREATOR_ASSISTANT_ID e) \<longrightarrow>
        resp = \<lparr>status = 500, body = ErrorBody 
          (case ty of health_coach \<Rightarrow> ''Health Coach Assistant ID not configured'' | excursion_creator \<Rightarrow> ''Excursion Creator Assistant ID not configured'')\<rparr>) \<and>
    ((\<exists>t a. CreateRun t a \<in> set (trace w')) \<and> runResponse e = NotOk \<longrightarrow>
        resp = \<lparr>status = 500, body = ErrorBody ''Failed to run assistant''\<rparr>) \<and>
    (\<forall>k. k < polls (trace w') \<and> statusResponse e k = NotOk \<longrightarrow>
        resp = \<lparr>status = 500, body = ErrorBody ''Failed to check run status''\<rparr>) \<and>
    (\<forall>k st. k < polls (trace w') \<and> statusResponse e k = Ok st \<and> (st = ''failed'' \<or> st = ''cancelled'' \<or> st = ''expired'') \<longrightarrow>
        resp = \<lparr>status = 500, body = ErrorBody (''Assistant run '' @ st)\<rparr>) \<and>
    (\<forall>st. polls (trace w') = 30 \<and> statusResponse e 29 = Ok st \<and> st \<noteq> ''completed'' \<and>
          \<not> (st = ''failed'' \<or> st = ''cancelled'' \<or> st = ''expired'') \<longrightarrow>
        resp = \<lparr>status = 500, body = ErrorBody ''Assistant run timed out''\<rparr>) \<and>
    ((\<exists>t. ListMessages t \<in> set (trace w')) \<and> messagesResponse e = NotOk \<longrightarrow>
        resp = \<lparr>status = 500, body = ErrorBody ''Failed to retrieve messages''\<rparr>) \<and>
    (\<forall>data. (\<exists>t. ListMessages t \<in> set (trace w')) \<and> messagesResponse e = Ok data \<and>
          find (\<lambda>msg. remote_role msg = ''assistant'') data = None \<longrightarrow>
        resp = \<lparr>status = 500, body = ErrorBody ''No assistant response found''\<rparr>) \<and>
    (\<forall>data am. (\<exists>t. ListMessages t \<in> set (trace w')) \<and> messagesResponse e = Ok data \<and>
          find (\<lambda>msg. remote_role msg = ''assistant'') data = Some am \<and>
          find (\<lambda>p. part_type p = ''text'') (remote_content am) = None \<longrightarrow>
        resp = \<lparr>status = 500, body = ErrorBody ''No text content in assistant response''\<rparr>) \<and>
    (\<forall>x. ((\<exists>t a. CreateRun t a \<in> set (trace w')) \<and> runResponse e = Rejected x) \<or>
          (\<exists>k. k < polls (trace w') \<and> statusResponse e k = Rejected x) \<or>
          ((\<exists>t. ListMessages t \<in> set (trace w')) \<and> messagesResponse e = Rejected x) \<or>
          ((\<exists>c reply. InsertMessage c assistant reply \<in> set (trace w')) \<and>
             insertAssistantMessageError e = Some x) \<longrightarrow>
        resp = \<lparr>status = 500, body = ErrorBody 
          (case x of JsError m \<Rightarrow> m | NonError \<Rightarrow> ''An unknown error occurred'')\<rparr>) \<and>
    ((\<exists>reply c t m.
         resp = \<lparr>status = 200, body = ChatResponse reply c t\<rparr> \<and>
         messages w' = ms @ [\<lparr>conversation_id = c, msg_role = user, content = m\<rparr>,
                              \<lparr>conversation_id = c, msg_role = assistant, content = reply\<rparr>] \<and>
         (\<exists>pre. trace w' = pre @ [ListMessages t, InsertMessage c assistant reply]) \<and>
         truthy (authorization req) \<and> getUser e \<noteq> None \<and>
         (\<exists>b. json req = Inr b \<and> message b = Some m \<and> m \<noteq> []) \<and>
         truthy (OPENAI_API_KEY e) \<and> insertUserMessageError e = None \<and>
         addMessageResponse e = Ok () \<and>
         truthy 
           (case ty of health_coach \<Rightarrow> HEALTH_COACH_ASSISTANT_ID e | excursion_creator \<Rightarrow> EXCURSION_CREATOR_ASSISTANT_ID e) \<and>
         (\<exists>r. runResponse e = Ok r) \<and>
         (\<forall>k. k < polls (trace w') \<longrightarrow>
            (\<exists>st. statusResponse e k = Ok st \<and> \<not> (st = ''failed'' \<or> st = ''cancelled'' \<or> st = ''expired''))) \<and>
         (\<exists>data am p. messagesResponse e = Ok data \<and>
            find (\<lambda>msg. remote_role msg = ''assistant'') data = Some am \<and>
            find (\<lambda>p. part_type p = ''text'') (remote_content am) = Some p \<and> reply = text_value p) \<and>
         insertAssistantMessageError e = None) \<or>
       (\<exists>m. resp = \<lparr>status = 500, body = ErrorBody m\<rparr> \<and>
          (messages w' = ms \<or>
           (\<exists>c u. messages w' = ms @ [\<lparr>conversation_id = c, msg_role = user, content = u\<rparr>]))))"
  using handler_early_failures [OF assms]
    handler_turn_failures [OF assms, unfolded turn_failures_def]
    handler_run_failures [OF assms(1), unfolded run_failures_def]
    handler_shape [OF assms]
  apply (elim conjE)
  apply (intro conjI)
  apply assumption+
  done

theorem failures_become_status_500_witness:
  "http_method unauthorised_request \<noteq> ''OPTIONS'' \<and>
   \<not> truthy (authorization unauthorised_request) \<and>
   fst (handler excursion_creator unauthorised_request good_env (new_world Map.empty [])) =
     \<lparr>status = 500, body = ErrorBody ''No authorization header''\<rparr> \<and>
   http_method blank_request \<noteq> ''OPTIONS'' \<and> truthy (authorization blank_request) \<and>
   getUser good_env \<noteq> None \<and> json blank_request = Inr blank_body \<and>
   \<not> truthy (message blank_body) \<and>
   fst (handler excursion_creator blank_request good_env (new_world Map.empty [])) =
     \<lparr>status = 500, body = ErrorBody ''Message is required''\<rparr> \<and>
   http_method beach_request \<noteq> ''OPTIONS'' \<and>
   handler excursion_creator beach_request no_assistant_env (new_world Map.empty []) =
     (\<lparr>status = 500, body = ErrorBody ''Excursion Creator Assistant ID not configured''\<rparr>,
      append_failed_world) \<and>
   AppendMessage ''t9'' beach_content \<in> set (trace append_failed_world) \<and>
   addMessageResponse no_assistant_env = Ok () \<and>
   \<not> truthy (EXCURSION_CREATOR_ASSISTANT_ID no_assistant_env) \<and>
   handler excursion_creator beach_request append_down_env (new_world Map.empty []) =
     (\<lparr>status = 500, body = ErrorBody ''Failed to add message to thread''\<rparr>,
      append_failed_world) \<and>
   addMessageResponse append_down_env = NotOk \<and>
   handler excursion_creator beach_request expiring_env (new_world Map.empty []) =
     (\<lparr>status = 500, body = ErrorBody ''Assistant run expired''\<rparr>, expired_world) \<and>
   2 < polls (trace expired_world) \<and> statusResponse expiring_env 2 = Ok ''expired'' \<and>
   handler excursion_creator beach_request stuck_env (new_world Map.empty []) =
     (\<lparr>status = 500, body = ErrorBody ''Assistant run timed out''\<rparr>, stuck_world) \<and>
   polls (trace stuck_world) = 30 \<and> statusResponse stuck_env 29 = Ok ''in_progress'' \<and>
   handler excursion_creator beach_request store_down_env (new_world Map.empty []) =
     (\<lparr>status = 500, body = ErrorBody ''An unknown error occurred''\<rparr>, store_failed_world) \<and>
   InsertMessage ''c9'' user ''Plan a beach day'' \<in> set (trace store_failed_world) \<and>
   insertUserMessageError store_down_env = Some NonError \<and>
   handler excursion_creator beach_request good_env (new_world Map.empty []) =
     (pier_response, good_world) \<and>
   status pier_response = 200 \<and>
   messages good_world = [] @ [beach_user_row, beach_assistant_row] \<and>
   insertAssistantMessageError good_env = None"
proof -
  have m1: "http_method unauthorised_request \<noteq> ''OPTIONS''"
    and c1: "\<not> truthy (authorization unauthorised_request)"
    by (simp_all add: unauthorised_request_def beach_request_def)
  have r1: "fst (handler excursion_creator unauthorised_request good_env (new_world Map.empty [])) =
     \<lparr>status = 500, body = ErrorBody ''No authorization header''\<rparr>"
    using failures_become_status_500 [where ty = excursion_creator and
        req = unauthorised_request and e = good_env and cs = Map.empty and ms = "[]",
        OF prod.collapse [symmetric] m1, THEN conjunct1] c1
    by simp
  have m2: "http_method blank_request \<noteq> ''OPTIONS''"
    and a2: "truthy (authorization blank_request)"
    and j2: "json blank_request = Inr blank_body"
    by (simp_all add: blank_request_def beach_request_def)
  have u2: "getUser good_env \<noteq> None" by (simp add: good_env_def)
  have c2: "\<not> truthy (message blank_body)" by (simp add: blank_body_def)
  have r2: "fst (handler excursion_creator blank_request good_env (new_world Map.empty [])) =
     \<lparr>status = 500, body = ErrorBody ''Message is required''\<rparr>"
    using failures_become_status_500 [where ty = excursion_creator and
        req = blank_request and e = good_env and cs = Map.empty and ms = "[]",
        OF prod.collapse [symmetric] m2, THEN conjunct2, THEN conjunct2, THEN conjunct2,
        THEN conjunct1] a2 u2 j2 c2
    by blast
  have m: "http_method beach_request \<noteq> ''OPTIONS''" by (simp add: beach_request_def)
  have a3: "AppendMessage ''t9'' beach_content \<in> set (trace append_failed_world)"
    by (simp add: append_failed_world_def beach_prefix_def)
  have o3: "addMessageResponse no_assistant_env = Ok ()"
    and c3: "\<not> truthy (EXCURSION_CREATOR_ASSISTANT_ID no_assistant_env)"
    by (simp_all add: no_assistant_env_def good_env_def)
  have c4: "addMessageResponse append_down_env = NotOk" by (simp add: append_down_env_def)
  have p5: "2 < polls (trace expired_world)"
    by (simp add: expired_world_def beach_prefix_def)
  have c5: "statusResponse expiring_env 2 = Ok ''expired''"
    by (simp add: expiring_env_def good_env_def)
  have p6: "polls (trace stuck_world) = 30"
    by (simp add: stuck_world_def beach_prefix_def)
  have c6: "statusResponse stuck_env 29 = Ok ''in_progress''"
    by (simp add: stuck_env_def good_env_def)
  have a7: "InsertMessage ''c9'' user ''Plan a beach day'' \<in> set (trace store_failed_world)"
    by (simp add: store_failed_world_def)
  have c7: "insertUserMessageError store_down_env = Some NonError"
    by (simp add: store_down_env_def)
  have s8: "status pier_response = 200" by (simp add: pier_response_def)
  have i8: "insertAssistantMessageError good_env = None" by (simp add: good_env_def)
  have g8: "messages good_world = [] @ [beach_user_row, beach_assistant_row]"
    by (simp add: good_world_def)
  note n3 = no_assistant_run and n4 = append_failed_run and n5 = expiring_run
    and n6 = stuck_run and n7 = store_failed_run and n8 = good_run
  show ?thesis by (intro conjI) fact+
qed

section \<open>An empty message\<close>

text \<open>
  Claim C7. For an authenticated request (authorization header present, the auth
  service returns a user) whose body has no message or an empty one, the only call
  issued is the one to the auth service: no conversation lookup, no call to the remote
  assistant service, no insert. Both tables are as before, and the response is status
  500 with the text "Message is required".
\<close>

theorem empty_message_rejected_first:
  assumes "http_method req \<noteq> ''OPTIONS''" "truthy (authorization req)" "getUser e = Some uid"
    "json req = Inr b" "\<not> truthy (message b)"
  shows "handler ty req e (new_world cs ms) =
    (\<lparr>status = 500, body = ErrorBody ''Message is required''\<rparr>,
     \<lparr>conversations = cs, messages = ms, trace = [AuthGetUser]\<rparr>)"
  using assms by (simp add: handler_def handler_body_def step_defs new_world_def)

theorem empty_message_rejected_first_witness:
  "http_method blank_request \<noteq> ''OPTIONS'' \<and> truthy (authorization blank_request) \<and>
   getUser good_env = Some ''u1'' \<and> json blank_request = Inr blank_body \<and>
   \<not> truthy (message blank_body) \<and>
   handler excursion_creator blank_request good_env (new_world beach_conversations [beach_user_row]) =
    (\<lparr>status = 500, body = ErrorBody ''Message is required''\<rparr>,
     \<lparr>conversations = beach_conversations, messages = [beach_user_row], trace = [AuthGetUser]\<rparr>)"
proof -
  have a: "http_method blank_request \<noteq> ''OPTIONS''" and b: "truthy (authorization blank_request)"
    and d: "json blank_request = Inr blank_body"
    by (simp_all add: blank_request_def beach_request_def)
  have c: "getUser good_env = Some ''u1''" by (simp add: good_env_def)
  have e: "\<not> truthy (message blank_body)" by (simp add: blank_body_def)
  note r = empty_message_rejected_first [OF a b c d e, of excursion_creator
    beach_conversations "[beach_user_row]"]
  show ?thesis by (intro conjI) fact+
qed

section \<open>The status in the create-run response\<close>

lemma run_assistant_create_run:
  assumes "run_assistant ty e t c w = (res, w')" "CreateRun t' a \<in> set (trace w')"
    "CreateRun t' a \<notin> set (trace w)"
  shows "t' = t \<and> a = the (assistant_id_env ty e) \<and> truthy (assistant_id_env ty e)"
  using assms by (auto dest!: run_assistant_inv poll_loop_shape retrieve_reply_inv)

lemma run_assistant_completed:
  "truthy (assistant_id_env ty e) \<Longrightarrow> runResponse e = Ok r \<Longrightarrow> run_status r = ''completed'' \<Longrightarrow>
   run_assistant ty e t c w =
     retrieve_reply e t c (w\<lparr>trace := trace w @ [CreateRun t (the (assistant_id_env ty e))]\<rparr>)"
  by (simp add: run_assistant_def step_defs poll_loop.simps)

lemma poll_loop_completed: "poll_loop e t r ''completed'' a w = (Inr ''completed'', w)"
  by (simp add: poll_loop.simps)

lemma run_assistant_first_poll:
  assumes "run_assistant ty e t c w = (res, w')" "truthy (assistant_id_env ty e)"
    "runResponse e = Ok r" "run_status r \<noteq> ''completed''"
  shows "(\<exists>post. trace w' = trace w @
            [CreateRun t (the (assistant_id_env ty e)), Sleep 1000, GetRun t (run_id r)] @ post) \<and>
         (\<forall>st. statusResponse e 0 = Ok st \<and> terminal_failure st \<longrightarrow>
            res = Inl (JsError (''Assistant run '' @ st)) \<and> polls (trace w') = polls (trace w) + 1) \<and>
         (statusResponse e 0 = Ok ''completed'' \<longrightarrow>
            retrieve_reply e t c (w\<lparr>trace := trace w @
              [CreateRun t (the (assistant_id_env ty e)), Sleep 1000, GetRun t (run_id r)]\<rparr>) = (res, w'))"
proof -
  let ?a = "the (assistant_id_env ty e)"
  let ?w1 = "w\<lparr>trace := trace w @ [CreateRun t ?a]\<rparr>"
  let ?w2 = "w\<lparr>trace := trace w @ [CreateRun t ?a, Sleep 1000, GetRun t (run_id r)]\<rparr>"
  from run_assistant_inv [OF assms(1)] assms(2,3)
  obtain pr w2 where pl: "poll_loop e t (run_id r) (run_status r) 0 ?w1 = (pr, w2)"
    and fin: "(\<exists>x. pr = Inl x \<and> res = Inl x \<and> w' = w2) \<or>
              (\<exists>s. pr = Inr s \<and> s \<noteq> ''completed'' \<and>
                   res = Inl (JsError ''Assistant run timed out'') \<and> w' = w2) \<or>
              (pr = Inr ''completed'' \<and> retrieve_reply e t c w2 = (res, w'))"
    by auto
  from poll_loop_shape [OF pl] assms(4) obtain n where
    n: "0 < n" "w2 = ?w1\<lparr>trace := trace ?w1 @ poll_events t (run_id r) n\<rparr>"
    by (auto simp: maxAttempts_def)
  then obtain k where "n = Suc k" by (cases n) auto
  with n(2) have w2: "trace w2 = trace ?w2 @ poll_events t (run_id r) k"
    by (simp add: poll_events_Suc)
  from fin have "\<exists>post. trace w' = trace w2 @ post"
    by (auto dest!: retrieve_reply_inv)
  with w2 have 1: "\<exists>post. trace w' = trace w @
            [CreateRun t ?a, Sleep 1000, GetRun t (run_id r)] @ post" by auto
  have 2: "res = Inl (JsError (''Assistant run '' @ st)) \<and> polls (trace w') = polls (trace w) + 1"
    if "statusResponse e 0 = Ok st" "terminal_failure st" for st
  proof -
    from pl that assms(4) have "pr = Inl (JsError (''Assistant run '' @ st))" "w2 = ?w2"
      by (simp_all add: poll_loop.simps [of e t "run_id r" "run_status r" 0] maxAttempts_def)
    with fin show ?thesis by auto
  qed
  have 3: "retrieve_reply e t c ?w2 = (res, w')" if "statusResponse e 0 = Ok ''completed''"
  proof -
    from pl that assms(4) have "pr = Inr ''completed''" "w2 = ?w2"
      by (simp_all add: poll_loop.simps [of e t "run_id r" "run_status r" 0] maxAttempts_def
            terminal_failure_def poll_loop_completed)
    with fin show ?thesis by auto
  qed
  from 1 2 3 show ?thesis by blast
qed

lemma retrieve_reply_trace:
  "retrieve_reply e t c w = (res, w') \<Longrightarrow>
     (\<exists>post. trace w' = trace w @ ListMessages t # post \<and> polls post = 0 \<and>
        (\<forall>n. Sleep n \<notin> set post)) \<and>
     (\<forall>data reply. messagesResponse e = Ok data \<and> extract_reply data = Inr reply \<and>
        insertAssistantMessageError e = None \<longrightarrow> res = Inr (ChatResponse reply c t))"
  by (auto dest!: retrieve_reply_inv)

text \<open>
  Claim C9. Suppose the run has been created and the create-run response carries the
  run \<open>r\<close>. If its status is \<^verbatim>\<open>failed\<close>, \<^verbatim>\<open>cancelled\<close> or \<^verbatim>\<open>expired\<close>, the handler does not fail
  on it: it waits 1000 ms and polls, and what happens next depends on the polled status
  only. If that first poll reports a failed, cancelled or expired run, the response is
  status 500 with "Assistant run " and the polled status, after exactly one poll; if it
  reports \<^verbatim>\<open>completed\<close>, the handler goes on to read the thread's messages after exactly one
  poll. If the status in the create-run response is \<^verbatim>\<open>completed\<close>, there is no wait and no
  poll, the messages are read right after the run is created, and the turn succeeds
  when reading the reply and storing it succeed.
\<close>

theorem create_run_status_not_checked:
  assumes "handler ty req e (new_world cs ms) = (resp, w')"
    "CreateRun t a \<in> set (trace w')" "runResponse e = Ok r"
  shows "(terminal_failure (run_status r) \<longrightarrow>
           (\<exists>pre post. trace w' = pre @ [CreateRun t a, Sleep 1000, GetRun t (run_id r)] @ post) \<and>
           (\<forall>st. statusResponse e 0 = Ok st \<and> terminal_failure st \<longrightarrow>
              resp = \<lparr>status = 500, body = ErrorBody (''Assistant run '' @ st)\<rparr> \<and>
              polls (trace w') = 1) \<and>
           (statusResponse e 0 = Ok ''completed'' \<longrightarrow>
              polls (trace w') = 1 \<and>
              (\<exists>pre post. trace w' =
                 pre @ [CreateRun t a, Sleep 1000, GetRun t (run_id r), ListMessages t] @ post))) \<and>
         (run_status r = ''completed'' \<longrightarrow>
           polls (trace w') = 0 \<and> (\<forall>n. Sleep n \<notin> set (trace w')) \<and>
           (\<exists>pre post. trace w' = pre @ [CreateRun t a, ListMessages t] @ post) \<and>
           (\<forall>data reply. messagesResponse e = Ok data \<and> extract_reply data = Inr reply \<and>
              insertAssistantMessageError e = None \<longrightarrow>
              (\<exists>c. resp = \<lparr>status = 200, body = ChatResponse reply c t\<rparr>)))"
  using assms(1)
proof (cases rule: handler_run_cases)
  case no_run
  with assms(2) show ?thesis by auto
next
  case (run t' c w1 res)
  let ?a = "the (assistant_id_env ty e)"
  from run(2) have p0: "polls (trace w1) = 0" by (rule prefix_event_polls)
  from run(2) have s0: "\<forall>n. Sleep n \<notin> set (trace w1)" by auto
  from run(2) have c0: "CreateRun t a \<notin> set (trace w1)" by auto
  from run_assistant_create_run [OF run(1) assms(2) c0]
  have ta: "t' = t" "a = ?a" and tr: "truthy (assistant_id_env ty e)" by auto
  have A: "(\<exists>pre post. trace w' = pre @ [CreateRun t a, Sleep 1000, GetRun t (run_id r)] @ post) \<and>
           (\<forall>st. statusResponse e 0 = Ok st \<and> terminal_failure st \<longrightarrow>
              resp = \<lparr>status = 500, body = ErrorBody (''Assistant run '' @ st)\<rparr> \<and>
              polls (trace w') = 1) \<and>
           (statusResponse e 0 = Ok ''completed'' \<longrightarrow>
              polls (trace w') = 1 \<and>
              (\<exists>pre post. trace w' =
                 pre @ [CreateRun t a, Sleep 1000, GetRun t (run_id r), ListMessages t] @ post))"
    if tf: "terminal_failure (run_status r)"
  proof -
    from tf have nc: "run_status r \<noteq> ''completed''" by (auto simp: terminal_failure_def)
    note fp = run_assistant_first_poll [OF run(1) tr assms(3) nc]
    from fp ta have 1: "\<exists>pre post. trace w' =
        pre @ [CreateRun t a, Sleep 1000, GetRun t (run_id r)] @ post" by blast
    from fp p0 run(3) have 2: "\<forall>st. statusResponse e 0 = Ok st \<and> terminal_failure st \<longrightarrow>
              resp = \<lparr>status = 500, body = ErrorBody (''Assistant run '' @ st)\<rparr> \<and>
              polls (trace w') = 1" by auto
    have 3: "polls (trace w') = 1 \<and>
              (\<exists>pre post. trace w' =
                 pre @ [CreateRun t a, Sleep 1000, GetRun t (run_id r), ListMessages t] @ post)"
      if "statusResponse e 0 = Ok ''completed''"
    proof -
      from fp that have "retrieve_reply e t' c (w1\<lparr>trace := trace w1 @
              [CreateRun t' ?a, Sleep 1000, GetRun t' (run_id r)]\<rparr>) = (res, w')" by blast
      from retrieve_reply_trace [OF this] obtain post where
        "trace w' = trace w1 @ [CreateRun t' ?a, Sleep 1000, GetRun t' (run_id r)] @
           ListMessages t' # post" "polls post = 0" by auto
      with p0 ta show ?thesis by auto
    qed
    from 1 2 3 show ?thesis by blast
  qed
  have B: "polls (trace w') = 0 \<and> (\<forall>n. Sleep n \<notin> set (trace w')) \<and>
           (\<exists>pre post. trace w' = pre @ [CreateRun t a, ListMessages t] @ post) \<and>
           (\<forall>data reply. messagesResponse e = Ok data \<and> extract_reply data = Inr reply \<and>
              insertAssistantMessageError e = None \<longrightarrow>
              (\<exists>c. resp = \<lparr>status = 200, body = ChatResponse reply c t\<rparr>))"
    if cp: "run_status r = ''completed''"
  proof -
    from run(1) run_assistant_completed [OF tr assms(3) cp, of t' c w1]
    have "retrieve_reply e t' c (w1\<lparr>trace := trace w1 @ [CreateRun t' ?a]\<rparr>) = (res, w')" by simp
    from retrieve_reply_trace [OF this] obtain post where
      post: "trace w' = trace w1 @ [CreateRun t' ?a] @ ListMessages t' # post" "polls post = 0"
        "\<forall>n. Sleep n \<notin> set post"
      and ok: "\<forall>data reply. messagesResponse e = Ok data \<and> extract_reply data = Inr reply \<and>
        insertAssistantMessageError e = None \<longrightarrow> res = Inr (ChatResponse reply c t')"
      by auto
    from post p0 s0 ta have "polls (trace w') = 0" "\<forall>n. Sleep n \<notin> set (trace w')"
      "\<exists>pre post. trace w' = pre @ [CreateRun t a, ListMessages t] @ post" by auto
    moreover from ok run(3) ta
    have "\<forall>data reply. messagesResponse e = Ok data \<and> extract_reply data = Inr reply \<and>
              insertAssistantMessageError e = None \<longrightarrow>
              (\<exists>c. resp = \<lparr>status = 200, body = ChatResponse reply c t\<rparr>)" by auto
    ultimately show ?thesis by blast
  qed
  from A B show ?thesis by blast
qed

theorem create_run_status_not_checked_witness:
  "handler excursion_creator beach_request failed_then_cancelled_env (new_world Map.empty []) =
     (\<lparr>status = 500, body = ErrorBody ''Assistant run cancelled''\<rparr>, cancelled_world) \<and>
   CreateRun ''t9'' ''asst_x'' \<in> set (trace cancelled_world) \<and>
   runResponse failed_then_cancelled_env = Ok failed_run \<and>
   terminal_failure (run_status failed_run) \<and>
   statusResponse failed_then_cancelled_env 0 = Ok ''cancelled'' \<and>
   terminal_failure ''cancelled'' \<and> polls (trace cancelled_world) = 1 \<and>
   handler excursion_creator beach_request failed_then_completed_env (new_world Map.empty []) =
     (pier_response, recovered_world) \<and>
   CreateRun ''t9'' ''asst_x'' \<in> set (trace recovered_world) \<and>
   runResponse failed_then_completed_env = Ok failed_run \<and>
   statusResponse failed_then_completed_env 0 = Ok ''completed'' \<and>
   polls (trace recovered_world) = 1 \<and>
   handler excursion_creator beach_request completed_at_once_env (new_world Map.empty []) =
     (pier_response, immediate_world) \<and>
   CreateRun ''t9'' ''asst_x'' \<in> set (trace immediate_world) \<and>
   runResponse completed_at_once_env = Ok completed_run \<and>
   run_status completed_run = ''completed'' \<and> polls (trace immediate_world) = 0 \<and>
   status pier_response = 200"
proof -
  have a1: "CreateRun ''t9'' ''asst_x'' \<in> set (trace cancelled_world)"
    by (simp add: cancelled_world_def)
  have b1: "runResponse failed_then_cancelled_env = Ok failed_run"
    by (simp add: failed_then_cancelled_env_def)
  have f: "terminal_failure (run_status failed_run)"
    by (simp add: failed_run_def terminal_failure_def)
  have s1: "statusResponse failed_then_cancelled_env 0 = Ok ''cancelled''"
    by (simp add: failed_then_cancelled_env_def)
  have tc: "terminal_failure ''cancelled''" by (simp add: terminal_failure_def)
  from create_run_status_not_checked [OF cancelled_run a1 b1] f s1 tc
  have p1: "polls (trace cancelled_world) = 1" by blast
  have a2: "CreateRun ''t9'' ''asst_x'' \<in> set (trace recovered_world)"
    by (simp add: recovered_world_def)
  have b2: "runResponse failed_then_completed_env = Ok failed_run"
    by (simp add: failed_then_completed_env_def)
  have s2: "statusResponse failed_then_completed_env 0 = Ok ''completed''"
    by (simp add: failed_then_completed_env_def)
  from create_run_status_not_checked [OF recovered_run a2 b2] f s2
  have p2: "polls (trace recovered_world) = 1" by blast
  have a3: "CreateRun ''t9'' ''asst_x'' \<in> set (trace immediate_world)"
    by (simp add: immediate_world_def)
  have b3: "runResponse completed_at_once_env = Ok completed_run"
    by (simp add: completed_at_once_env_def)
  have c3: "run_status completed_run = ''completed''" by (simp add: completed_run_def)
  from create_run_status_not_checked [OF immediate_run a3 b3] c3
  have p3: "polls (trace immediate_world) = 0" by blast
  have st: "status pier_response = 200" by (simp add: pier_response_def)
  note r1 = cancelled_run and r2 = recovered_run and r3 = immediate_run
  show ?thesis by (intro conjI) fact+
qed

section \<open>Ordered reads of the client SDK\<close>

lemma sorted_desc_rev_sort_key:
  "sorted_wrt (\<lambda>a b. (col b :: int) \<le> col a) (rev (sort_key col xs))"
proof -
  have "sorted (map col (sort_key col xs))" by (rule sorted_sort_key)
  then show ?thesis by (simp add: sorted_wrt_rev sorted_map)
qed

lemma sorted_asc_sort_key:
  "sorted_wrt (\<lambda>a b. (col a :: int) \<le> col b) (sort_key col xs)"
  using sorted_sort_key [of col xs] by (simp add: sorted_map)

text \<open>
  Claim C8. For every caller \<open>uid\<close> and every state of the two tables, when the query
  reports no error: \<^verbatim>\<open>getConversations\<close> returns exactly the caller's conversations (those
  of the given assistant type, when one is given), in descending order of \<^verbatim>\<open>updated_at\<close>;
  \<^verbatim>\<open>getMessages\<close> returns exactly the messages of the given conversation, provided it is
  the caller's, in ascending order of \<^verbatim>\<open>created_at\<close>.
\<close>

theorem sdk_reads_are_ordered:
  "(\<exists>rs. getConversations uid db None assistantType = Inr rs \<and>
      sorted_wrt (\<lambda>a b. c_updated_at b \<le> c_updated_at a) rs \<and>
      mset rs = mset (filter (\<lambda>c. c_user_id c = uid \<and>
                    (case assistantType of None \<Rightarrow> True | Some ty \<Rightarrow> c_assistant_type c = ty))
                  (conversations_table db))) \<and>
   (\<exists>ms. getMessages uid db None cid = Inr ms \<and>
      sorted_wrt (\<lambda>a b. m_created_at a \<le> m_created_at b) ms \<and>
      mset ms = mset (filter (\<lambda>m. m_conversation_id m = cid \<and>
                    list_ex (\<lambda>c. c_id c = cid \<and> c_user_id c = uid) (conversations_table db))
                  (messages_table db)))"
proof -
  have 1: "\<exists>rs. getConversations uid db None assistantType = Inr rs \<and>
      sorted_wrt (\<lambda>a b. c_updated_at b \<le> c_updated_at a) rs \<and>
      mset rs = mset (filter (\<lambda>c. c_user_id c = uid \<and>
                    (case assistantType of None \<Rightarrow> True | Some ty \<Rightarrow> c_assistant_type c = ty))
                  (conversations_table db))"
  proof (cases assistantType)
    case None
    then show ?thesis
      by (simp add: getConversations_def run_query_def order_by_def select_all_def
            visible_conversations_def sorted_desc_rev_sort_key)
  next
    case (Some ty)
    then show ?thesis
      by (simp add: getConversations_def run_query_def order_by_def select_all_def
            eq_filter_def visible_conversations_def sorted_desc_rev_sort_key conj_commute)
  qed
  have "filter_mset (\<lambda>m. list_ex (\<lambda>c. c_id c = m_conversation_id m \<and> c_user_id c = uid)
            (conversations_table db) \<and> m_conversation_id m = cid) (mset (messages_table db)) =
        filter_mset (\<lambda>m. m_conversation_id m = cid \<and>
            list_ex (\<lambda>c. c_id c = cid \<and> c_user_id c = uid) (conversations_table db))
          (mset (messages_table db))"
    by (rule filter_mset_cong) auto
  then have 2: "\<exists>ms. getMessages uid db None cid = Inr ms \<and>
      sorted_wrt (\<lambda>a b. m_created_at a \<le> m_created_at b) ms \<and>
      mset ms = mset (filter (\<lambda>m. m_conversation_id m = cid \<and>
                    list_ex (\<lambda>c. c_id c = cid \<and> c_user_id c = uid) (conversations_table db))
                  (messages_table db))"
    by (simp add: getMessages_def run_query_def order_by_def select_all_def
          eq_filter_def visible_messages_def sorted_asc_sort_key)
  from 1 2 show ?thesis by blast
qed

lemmas sdk_defs = getConversations_def getMessages_def run_query_def order_by_def
  select_all_def eq_filter_def visible_conversations_def visible_messages_def
  sample_db_def k1_def k2_def k3_def m1_def m2_def m3_def

theorem sdk_reads_are_ordered_witness:
  "getConversations ''u1'' sample_db None None = Inr [k2, k1] \<and>
   getConversations ''u1'' sample_db None (Some health_coach) = Inr [k1] \<and>
   getMessages ''u1'' sample_db None ''k1'' = Inr [m1, m2] \<and>
   getMessages ''u1'' sample_db None ''k3'' = Inr [] \<and>
   sorted_wrt (\<lambda>a b. c_updated_at b \<le> c_updated_at a) [k2, k1] \<and>
   sorted_wrt (\<lambda>a b. m_created_at a \<le> m_created_at b) [m1, m2]"
proof -
  have g1: "getConversations ''u1'' sample_db None None = Inr [k2, k1]"
    and g2: "getConversations ''u1'' sample_db None (Some health_coach) = Inr [k1]"
    and g3: "getMessages ''u1'' sample_db None ''k1'' = Inr [m1, m2]"
    and g4: "getMessages ''u1'' sample_db None ''k3'' = Inr []"
    by (simp_all add: sdk_defs)
  from sdk_reads_are_ordered [of "''u1''" sample_db None "''k1''"] g1 g3
  have s1: "sorted_wrt (\<lambda>a b. c_updated_at b \<le> c_updated_at a) [k2, k1]"
    and s2: "sorted_wrt (\<lambda>a b. m_created_at a \<le> m_created_at b) [m1, m2]"
    by auto
  show ?thesis by (intro conjI) fact+
qed

end
